theory Spec2Isabelle
  imports Complex_Main
begin

section \<open>Magic link policy (src/utils/magicLink.ts)\<close>

text \<open>
  A JavaScript \<open>Date\<close> is modelled by its time value, the number of milliseconds since
  the epoch (\<open>getTime()\<close>), an \<open>int\<close>. The functions of the source read the clock
  themselves (\<open>Date.now()\<close>, \<open>new Date()\<close>); here the clock reading is the
  parameter \<open>now\<close>. A nullable date \<open>Date | null\<close> is an \<open>int option\<close>.
  All values stay far below \<open>2^53\<close>, where the arithmetic of JavaScript numbers on
  integers is exact.
\<close>

definition calculateMagicLinkExpiration :: "int \<Rightarrow> int" where
  "calculateMagicLinkExpiration now = now + 60 * 60 * 1000"

definition isMagicLinkExpired :: "int option \<Rightarrow> int \<Rightarrow> bool" where
  "isMagicLinkExpired expirationDate now =
     (case expirationDate of
        None \<Rightarrow> False
      | Some d \<Rightarrow> now > d)"

text \<open>\<open>getTimeUntilExpiration\<close> returns a number that may be \<open>Infinity\<close>.\<close>

datatype duration = Millis int | Infinity

definition getTimeUntilExpiration :: "int option \<Rightarrow> int \<Rightarrow> duration" where
  "getTimeUntilExpiration expirationDate now =
     (case expirationDate of
        None \<Rightarrow> Infinity
      | Some d \<Rightarrow> (let timeRemaining = d - now in Millis (max 0 timeRemaining)))"

text \<open>
  The decimal rendering of a number inside a template literal. The numbers rendered by
  \<open>formatTimeRemaining\<close> are integers.
\<close>

definition digit_char :: "nat \<Rightarrow> char" where
  "digit_char k = ''0123456789'' ! k"

fun nat_to_string :: "nat \<Rightarrow> string" where
  "nat_to_string n =
     (if n < 10 then [digit_char n]
      else nat_to_string (n div 10) @ [digit_char (n mod 10)])"

declare nat_to_string.simps [simp del]

definition number_to_string :: "int \<Rightarrow> string" where
  "number_to_string i =
     (if i < 0 then CHR ''-'' # nat_to_string (nat (- i)) else nat_to_string (nat i))"

text \<open>
  \<open>formatTimeRemaining\<close>: after the null check the source calls
  \<open>getTimeUntilExpiration\<close> on the same date. The \<open>Infinity\<close> branch cannot be
  reached from there; it is written out as JavaScript would compute it
  (\<open>Math.floor(Infinity / 60000)\<close> is \<open>Infinity\<close>, \<open>Infinity % 60\<close> is \<open>NaN\<close>).
\<close>

definition formatTimeRemaining :: "int option \<Rightarrow> int \<Rightarrow> string" where
  "formatTimeRemaining expirationDate now =
     (case expirationDate of
        None \<Rightarrow> ''No expiration''
      | Some d \<Rightarrow>
          (case getTimeUntilExpiration (Some d) now of
             Infinity \<Rightarrow> ''Infinityh NaNm''
           | Millis timeRemaining \<Rightarrow>
               if timeRemaining = 0 then ''Expired''
               else
                 (let minutes = timeRemaining div (1000 * 60);
                      hours = minutes div 60
                  in if hours > 0
                     then (let remainingMinutes = minutes mod 60
                           in number_to_string hours @ ''h '' @
                              number_to_string remainingMinutes @ ''m'')
                     else number_to_string minutes @ ''m'')))"

section \<open>Values of request and response bodies\<close>

text \<open>
  Request bodies and JSON responses are JavaScript values. \<open>JDate t\<close> stands for the
  string that \<open>toISOString()\<close> yields for the instant \<open>t\<close>. A number carries its
  value; \<open>NaN\<close> does not occur in a parsed JSON body.
\<close>

datatype jsval =
    JUndefined
  | JNull
  | JBool bool
  | JNum real
  | JStr string
  | JDate int
  | JArr "jsval list"
  | JObj "(string \<times> jsval) list"

text \<open>JavaScript truthiness, as used by \<open>!x\<close>, \<open>x || y\<close> and \<open>x && y\<close>.\<close>

fun truthy :: "jsval \<Rightarrow> bool" where
  "truthy JUndefined = False"
| "truthy JNull = False"
| "truthy (JBool b) = b"
| "truthy (JNum x) = (x \<noteq> 0)"
| "truthy (JStr s) = (s \<noteq> [])"
| "truthy (JDate t) = True"
| "truthy (JArr xs) = True"
| "truthy (JObj kvs) = True"

fun is_string :: "jsval \<Rightarrow> bool" where
  "is_string (JStr s) = True"
| "is_string (JDate t) = True"
| "is_string v = False"

fun is_number :: "jsval \<Rightarrow> bool" where
  "is_number (JNum x) = True"
| "is_number v = False"

text \<open>Property access \<open>body.k\<close>, as in \<open>const { k } = req.body\<close>.\<close>

fun getField :: "jsval \<Rightarrow> string \<Rightarrow> jsval" where
  "getField (JObj kvs) k = (case map_of kvs k of None \<Rightarrow> JUndefined | Some v \<Rightarrow> v)"
| "getField v k = JUndefined"

definition js_or :: "jsval \<Rightarrow> jsval \<Rightarrow> jsval" where
  "js_or a b = (if truthy a then a else b)"

definition opt_string :: "string option \<Rightarrow> jsval" where
  "opt_string v = (case v of None \<Rightarrow> JUndefined | Some x \<Rightarrow> JStr x)"

text \<open>\<open>d?.toISOString()\<close>\<close>

definition iso_opt :: "int option \<Rightarrow> jsval" where
  "iso_opt d = (case d of None \<Rightarrow> JUndefined | Some t \<Rightarrow> JDate t)"

definition nullable_string :: "string option \<Rightarrow> jsval" where
  "nullable_string v = (case v of None \<Rightarrow> JNull | Some x \<Rightarrow> JStr x)"

section \<open>Data model (prisma/schema.prisma, src/types)\<close>

datatype AppointmentType = CONSULTATION | TUTORIAL | ASSESSMENT | GROUP_SESSION | WORKSHOP

datatype BookingStatus = PENDING_CONFIRMATION | CONFIRMED | CANCELLED | COMPLETED

text \<open>
  \<open>PaymentStatus\<close> shares the names \<open>COMPLETED\<close> and \<open>CANCELLED\<close> with
  \<open>BookingStatus\<close>; its constructors carry the prefix \<open>P_\<close>.
\<close>

datatype PaymentStatus = P_PENDING | P_COMPLETED | P_FAILED | P_REFUNDED | P_CANCELLED

fun AppointmentType_string :: "AppointmentType \<Rightarrow> string" where
  "AppointmentType_string CONSULTATION = ''CONSULTATION''"
| "AppointmentType_string TUTORIAL = ''TUTORIAL''"
| "AppointmentType_string ASSESSMENT = ''ASSESSMENT''"
| "AppointmentType_string GROUP_SESSION = ''GROUP_SESSION''"
| "AppointmentType_string WORKSHOP = ''WORKSHOP''"

fun BookingStatus_string :: "BookingStatus \<Rightarrow> string" where
  "BookingStatus_string PENDING_CONFIRMATION = ''PENDING_CONFIRMATION''"
| "BookingStatus_string CONFIRMED = ''CONFIRMED''"
| "BookingStatus_string CANCELLED = ''CANCELLED''"
| "BookingStatus_string COMPLETED = ''COMPLETED''"

fun PaymentStatus_string :: "PaymentStatus \<Rightarrow> string" where
  "PaymentStatus_string P_PENDING = ''PENDING''"
| "PaymentStatus_string P_COMPLETED = ''COMPLETED''"
| "PaymentStatus_string P_FAILED = ''FAILED''"
| "PaymentStatus_string P_REFUNDED = ''REFUNDED''"
| "PaymentStatus_string P_CANCELLED = ''CANCELLED''"

text \<open>\<open>Object.values(PaymentStatus)\<close>, in declaration order.\<close>

definition validPaymentStatuses :: "PaymentStatus list" where
  "validPaymentStatuses = [P_PENDING, P_COMPLETED, P_FAILED, P_REFUNDED, P_CANCELLED]"

definition PaymentStatus_of_string :: "string \<Rightarrow> PaymentStatus option" where
  "PaymentStatus_of_string x = find (\<lambda>p. PaymentStatus_string p = x) validPaymentStatuses"

text \<open>
  The model \<open>Booking\<close>. The primary key, \<open>id\<close> in the source, is the field \<open>uuid\<close>
  here (the responses call it so too), since \<open>id\<close> is the identity function of HOL.
\<close>

record Booking =
  uuid :: string
  bookingId :: string
  magicLinkId :: string
  userName :: string
  userPhone :: string
  appointmentType :: AppointmentType
  appointmentDate :: int
  bookingDetails :: jsval
  status :: BookingStatus
  paymentStatus :: PaymentStatus
  paymentId :: "string option"
  paymentAmount :: "real option"
  paymentCurrency :: "string option"
  createdAt :: int
  confirmedAt :: "int option"
  paymentUpdatedAt :: "int option"
  lastAccessedAt :: "int option"
  magicLinkExpiresAt :: "int option"
  accessCount :: int

record BookingAnalytics =
  analyticsId :: string
  ownerId :: string
  eventType :: string
  userAgent :: "string option"
  ipAddress :: "string option"
  timestamp :: int

text \<open>
  The durable store: the two tables, rows in insertion order. The field \<open>ownerId\<close> of an
  analytics row is the column \<open>booking_id\<close>, the \<open>uuid\<close> of the owning booking.
\<close>

record Store =
  bookings :: "Booking list"
  analytics :: "BookingAnalytics list"

text \<open>
  What a request reads from outside the store: the clock, the process environment, and
  the values that the libraries generate (\<open>uuid()\<close> for a new row,
  \<open>Math.random().toString(36).substr(2, 9)\<close>, \<open>nanoid(12)\<close>). Whether the store
  accepts the insert of an analytics row is a parameter too: the redirect route catches that
  failure on its own. A request is modelled with one reading of the clock; the few readings
  the source makes while it serves one request are taken to agree.

  Three readings of values are made by the store, PostgreSQL behind the Prisma client, and
  not by the code of the repository; they are parameters as well. \<open>readsUuid\<close> gives the
  UUID, in the spelling the store returns, that a text denotes for a \<open>@db.Uuid\<close> column,
  and \<open>None\<close> for a text that is not a UUID (two spellings of one UUID are read as the same
  value); \<open>readsInet\<close> does the same for the \<open>@db.Inet\<close> column; \<open>readsDecimal\<close>
  gives the number that a value which is not a number, a string of digits say, denotes for
  a \<open>Decimal\<close> field, and \<open>None\<close> when it denotes none.
\<close>

record Env =
  dateNow :: int
  FRONTEND_BASE_URL :: "string option"
  MAGIC_LINK_BASE_URL :: "string option"
  freshUuid :: string
  randomSuffix :: string
  nanoid12 :: string
  analyticsInsertFails :: bool
  readsUuid :: "string \<Rightarrow> string option"
  readsInet :: "string \<Rightarrow> string option"
  readsDecimal :: "jsval \<Rightarrow> real option"

section \<open>The Prisma client on the store\<close>

datatype PrismaError =
    RecordNotFound
  | UniqueConstraintFailed
  | IntegerOutOfRange
  | ValidationError
  | InvalidText
  | ValueTooLong
  | NumericOverflow
  | InconsistentColumnData
  | StoreFailure

text \<open>A call that throws ends the calls that follow it.\<close>

definition andThen :: "PrismaError + 'a \<Rightarrow> ('a \<Rightarrow> PrismaError + 'b) \<Rightarrow> PrismaError + 'b" where
  "andThen r f = (case r of Inl e \<Rightarrow> Inl e | Inr v \<Rightarrow> f v)"

text \<open>
  Values handed to the store. A string is the UTF-8 encoding of a text. The store refuses a
  text that holds the character of code zero, in a column and in a \<open>where\<close> alike. A
  \<open>VARCHAR(n)\<close> column takes a text of at most \<open>n\<close> characters; of a longer text it
  cuts the excess off when the excess is all spaces, and refuses the text otherwise. A
  \<open>JSONB\<close> column refuses a value with the character of code zero in a string or a key.
\<close>

definition has_zero_byte :: "string \<Rightarrow> bool" where
  "has_zero_byte x = (CHR 0x00 \<in> set x)"

text \<open>The number of characters: the bytes that are not continuation bytes \<open>10xxxxxx\<close>.\<close>

definition utf8_length :: "string \<Rightarrow> nat" where
  "utf8_length x = length (filter (\<lambda>c. \<not> (digit7 c \<and> \<not> digit6 c)) x)"

definition store_text :: "string \<Rightarrow> PrismaError + string" where
  "store_text x = (if has_zero_byte x then Inl InvalidText else Inr x)"

definition store_varchar :: "nat \<Rightarrow> string \<Rightarrow> PrismaError + string" where
  "store_varchar n x =
     (if has_zero_byte x then Inl InvalidText
      else if utf8_length x \<le> n then Inr x
      else
        (let excess = utf8_length x - n
         in if list_all (\<lambda>c. c = CHR '' '') (drop (length x - excess) x)
            then Inr (take (length x - excess) x)
            else Inl ValueTooLong))"

text \<open>
  A \<open>DECIMAL(10,2)\<close> column rounds a number to two decimals, half away from zero, and
  refuses it when the result has more than eight digits before the point.
\<close>

definition round_half_away :: "real \<Rightarrow> int" where
  "round_half_away x = (if 0 \<le> x then \<lfloor>x + 1 / 2\<rfloor> else - \<lfloor>- x + 1 / 2\<rfloor>)"

definition store_decimal_10_2 :: "real \<Rightarrow> PrismaError + real" where
  "store_decimal_10_2 x =
     (let r = real_of_int (round_half_away (x * 100)) / 100
      in if \<bar>r\<bar> < 100000000 then Inr r else Inl NumericOverflow)"

definition store_uuid :: "Env \<Rightarrow> string \<Rightarrow> PrismaError + string" where
  "store_uuid env x =
     (case readsUuid env x of None \<Rightarrow> Inl InconsistentColumnData | Some v \<Rightarrow> Inr v)"

definition store_inet :: "Env \<Rightarrow> string \<Rightarrow> PrismaError + string" where
  "store_inet env x =
     (case readsInet env x of None \<Rightarrow> Inl InconsistentColumnData | Some v \<Rightarrow> Inr v)"

definition store_optional ::
  "(string \<Rightarrow> PrismaError + string) \<Rightarrow> string option \<Rightarrow> PrismaError + string option" where
  "store_optional f v =
     (case v of None \<Rightarrow> Inr None | Some x \<Rightarrow> andThen (f x) (\<lambda>y. Inr (Some y)))"

fun json_has_zero :: "jsval \<Rightarrow> bool" where
  "json_has_zero (JStr x) = has_zero_byte x"
| "json_has_zero (JArr xs) = list_ex json_has_zero xs"
| "json_has_zero (JObj kvs) =
     list_ex (\<lambda>kv. has_zero_byte (fst kv) \<or> json_has_zero (snd kv)) kvs"
| "json_has_zero v = False"

definition store_json :: "jsval \<Rightarrow> PrismaError + jsval" where
  "store_json v = (if json_has_zero v then Inl InvalidText else Inr v)"

text \<open>
  \<open>findUnique\<close> on a unique column: by \<open>magicLinkId\<close>, a text, and by \<open>id\<close>, a
  UUID. The call throws when the store does not take the value it is to look for.
\<close>

definition booking_findUnique_magicLinkId :: "string \<Rightarrow> Store \<Rightarrow> PrismaError + Booking option" where
  "booking_findUnique_magicLinkId m s =
     andThen (store_text m) (\<lambda>v. Inr (find (\<lambda>r. magicLinkId r = v) (bookings s)))"

definition booking_findUnique_id ::
  "Env \<Rightarrow> string \<Rightarrow> Store \<Rightarrow> PrismaError + Booking option" where
  "booking_findUnique_id env i s =
     andThen (store_uuid env i) (\<lambda>v. Inr (find (\<lambda>r. uuid r = v) (bookings s)))"

text \<open>
  \<open>update\<close> changes the rows that satisfy \<open>where\<close> (one row, the columns being
  unique), fails with \<open>Record to update not found\<close> when there is none, and returns the
  updated row. The data of an update may be refused: \<open>access_count\<close> is an \<open>INTEGER\<close>
  column, and an increment beyond \<open>2147483647\<close> is an error of the store, not a
  wrap-around.
\<close>

definition apply_data :: "(Booking \<Rightarrow> PrismaError + Booking) \<Rightarrow> Booking \<Rightarrow> Booking" where
  "apply_data data r = (case data r of Inl e \<Rightarrow> r | Inr r' \<Rightarrow> r')"

definition update_rows ::
  "(Booking \<Rightarrow> bool) \<Rightarrow> (Booking \<Rightarrow> PrismaError + Booking) \<Rightarrow> Store \<Rightarrow>
   PrismaError + (Booking \<times> Store)" where
  "update_rows wh data s =
     (case find wh (bookings s) of
        None \<Rightarrow> Inl RecordNotFound
      | Some b \<Rightarrow>
          (case data b of
             Inl e \<Rightarrow> Inl e
           | Inr b' \<Rightarrow>
               Inr (b', s\<lparr>bookings :=
                      map (\<lambda>r. if wh r then apply_data data r else r) (bookings s)\<rparr>)))"

text \<open>
  The three \<open>where\<close> of the updates: \<open>{ magicLinkId }\<close> with the text of the request,
  \<open>{ id: uuid }\<close> with the text of the request, which the store reads as a UUID first,
  and \<open>{ id: booking.id }\<close> with the key of a row that was just read: that text is the
  store's own spelling of the key, and handing it back selects the same key.
\<close>

definition booking_update_magicLinkId ::
  "string \<Rightarrow> (Booking \<Rightarrow> PrismaError + Booking) \<Rightarrow> Store \<Rightarrow>
   PrismaError + (Booking \<times> Store)" where
  "booking_update_magicLinkId m data s =
     andThen (store_text m) (\<lambda>v. update_rows (\<lambda>r. magicLinkId r = v) data s)"

definition booking_update_id ::
  "Env \<Rightarrow> string \<Rightarrow> (Booking \<Rightarrow> PrismaError + Booking) \<Rightarrow> Store \<Rightarrow>
   PrismaError + (Booking \<times> Store)" where
  "booking_update_id env u data s =
     andThen (store_uuid env u) (\<lambda>v. update_rows (\<lambda>r. uuid r = v) data s)"

definition booking_update_key ::
  "string \<Rightarrow> (Booking \<Rightarrow> PrismaError + Booking) \<Rightarrow> Store \<Rightarrow>
   PrismaError + (Booking \<times> Store)" where
  "booking_update_key k data s = update_rows (\<lambda>r. uuid r = k) data s"

text \<open>
  \<open>create\<close> of a booking. The texts go into their \<open>VARCHAR\<close> columns and the details
  into the \<open>JSONB\<close> column; the primary key and the two \<open>@unique\<close> columns must be new.
\<close>

definition booking_create :: "Booking \<Rightarrow> Store \<Rightarrow> PrismaError + (Booking \<times> Store)" where
  "booking_create b s =
     andThen (store_varchar 255 (bookingId b)) (\<lambda>bid.
     andThen (store_varchar 50 (magicLinkId b)) (\<lambda>mid.
     andThen (store_varchar 255 (userName b)) (\<lambda>un.
     andThen (store_varchar 50 (userPhone b)) (\<lambda>up.
     andThen (store_json (bookingDetails b)) (\<lambda>det.
       (let row = b\<lparr>bookingId := bid, magicLinkId := mid, userName := un,
                      userPhone := up, bookingDetails := det\<rparr>
        in if list_ex (\<lambda>r. uuid r = uuid row \<or> bookingId r = bookingId row \<or>
                            magicLinkId r = magicLinkId row) (bookings s)
           then Inl UniqueConstraintFailed
           else Inr (row, s\<lparr>bookings := bookings s @ [row]\<rparr>)))))))"

text \<open>
  The client checks the data of a write against the types of the fields: a required string
  field takes a string, an optional one a string or \<open>null\<close>; anything else is refused.
\<close>

fun prisma_string :: "jsval \<Rightarrow> PrismaError + string" where
  "prisma_string (JStr x) = Inr x"
| "prisma_string v = Inl ValidationError"

fun prisma_nullable_string :: "jsval \<Rightarrow> PrismaError + string option" where
  "prisma_nullable_string (JStr x) = Inr (Some x)"
| "prisma_nullable_string JNull = Inr None"
| "prisma_nullable_string v = Inl ValidationError"

text \<open>
  \<open>bookingAnalytics.create\<close>: \<open>event_type\<close> is a \<open>VARCHAR(100)\<close>, \<open>user_agent\<close> a
  \<open>TEXT\<close> and \<open>ip_address\<close> an \<open>INET\<close> column; the row gets its key and its
  timestamp from the column defaults (\<open>uuid()\<close>, \<open>now()\<close>).
\<close>

definition bookingAnalytics_create ::
  "Env \<Rightarrow> string \<Rightarrow> jsval \<Rightarrow> jsval \<Rightarrow> jsval \<Rightarrow> Store \<Rightarrow> PrismaError + Store" where
  "bookingAnalytics_create env owner ev ua ipa s =
     (if analyticsInsertFails env then Inl StoreFailure
      else
        andThen (prisma_string ev) (\<lambda>ev'.
        andThen (prisma_nullable_string ua) (\<lambda>ua'.
        andThen (prisma_nullable_string ipa) (\<lambda>ipa'.
        andThen (store_varchar 100 ev') (\<lambda>et.
        andThen (store_optional store_text ua') (\<lambda>u.
        andThen (store_optional (store_inet env) ipa') (\<lambda>i.
          Inr (s\<lparr>analytics := analytics s @
                 [\<lparr>analyticsId = freshUuid env, ownerId = owner, eventType = et,
                   userAgent = u, ipAddress = i, timestamp = dateNow env\<rparr>]\<rparr>))))))))"

section \<open>Requests, responses and middleware\<close>

text \<open>
  What the routes read of an Express request: \<open>req.params\<close>, \<open>req.body\<close>,
  \<open>req.get('User-Agent')\<close>, \<open>req.get('host')\<close>, \<open>req.ip\<close> and
  \<open>req.protocol\<close>. A response is \<open>res.status(n).json(v)\<close> or
  \<open>res.redirect(n, url)\<close> (\<open>res.redirect(url)\<close> sends 302).
\<close>

record Request =
  params :: "(string \<times> string) list"
  body :: jsval
  headerUserAgent :: "string option"
  headerHost :: "string option"
  ip :: "string option"
  protocol :: string

datatype Response = Json nat jsval | Redirect nat string

definition param :: "Request \<Rightarrow> string \<Rightarrow> string option" where
  "param req k = map_of (params req) k"

definition failure :: "string \<Rightarrow> string \<Rightarrow> jsval" where
  "failure err msg =
     JObj [(''success'', JBool False), (''error'', JStr err), (''message'', JStr msg)]"

definition success :: "(string \<times> jsval) list \<Rightarrow> jsval" where
  "success d = JObj [(''success'', JBool True), (''data'', JObj d)]"

definition validationFailed :: "string list \<Rightarrow> jsval" where
  "validationFailed errors =
     JObj [(''success'', JBool False), (''error'', JStr ''Validation failed''),
           (''message'', JStr ''Please correct the following errors:''),
           (''details'', JArr (map JStr errors))]"

text \<open>
  A middleware either answers the request (\<open>Some\<close> response) or calls \<open>next()\<close>
  (\<open>None\<close>).
\<close>

text \<open>\<open>/^[A-Za-z0-9_-]{10,21}$/\<close>\<close>

definition nanoidPattern :: "string \<Rightarrow> bool" where
  "nanoidPattern x =
     (10 \<le> length x \<and> length x \<le> 21 \<and>
      list_all (\<lambda>c. c \<in> set (''ABCDEFGHIJKLMNOPQRSTUVWXYZ'' @
                               ''abcdefghijklmnopqrstuvwxyz'' @ ''0123456789'' @ ''_-'')) x)"

text \<open>
  \<open>validateNanoId\<close> reads the route parameter named \<open>nanoid\<close>:
  \<^verbatim>\<open>const { nanoid } = req.params;\<close>
\<close>

definition invalidMagicLinkId :: "Response" where
  "invalidMagicLinkId =
     Json 400 (failure ''Invalid magic link ID''
       ''The provided magic link ID is not in a valid format'')"

definition validateNanoId :: "Request \<Rightarrow> Response option" where
  "validateNanoId req =
     (case param req ''nanoid'' of
        None \<Rightarrow> Some invalidMagicLinkId
      | Some nanoid \<Rightarrow>
          if nanoid = [] \<or> \<not> nanoidPattern nanoid
          then Some invalidMagicLinkId
          else None)"

text \<open>\<open>/^[A-Z]{3}$/\<close>\<close>

definition currencyPattern :: "string \<Rightarrow> bool" where
  "currencyPattern x =
     (length x = 3 \<and> list_all (\<lambda>c. c \<in> set ''ABCDEFGHIJKLMNOPQRSTUVWXYZ'') x)"

text \<open>
  \<open>/^[A-Z]{3}$/.test(currency)\<close> converts its argument to a string first. An array of
  one element converts to what its element converts to; the conversion of any other array
  holds a comma or is empty, that of an object is \<open>[object Object]\<close>, that of a number
  or of a boolean has no three capital letters: none of these matches.
\<close>

fun currency_test :: "jsval \<Rightarrow> bool" where
  "currency_test (JStr x) = currencyPattern x"
| "currency_test (JArr [v]) = currency_test v"
| "currency_test v = False"

definition includes_PaymentStatus :: "jsval \<Rightarrow> bool" where
  "includes_PaymentStatus v =
     (case v of JStr x \<Rightarrow> PaymentStatus_of_string x \<noteq> None | _ \<Rightarrow> False)"

definition amount_negative :: "jsval \<Rightarrow> bool" where
  "amount_negative v = (case v of JNum x \<Rightarrow> x < 0 | _ \<Rightarrow> False)"

text \<open>The list \<open>errors\<close> of \<open>validatePaymentStatusUpdate\<close>, in the order of its pushes.\<close>

definition paymentStatusUpdate_errors :: "jsval \<Rightarrow> string list" where
  "paymentStatusUpdate_errors b =
     (let pstatus = getField b ''paymentStatus'';
          pid = getField b ''paymentId'';
          amount = getField b ''amount'';
          currency = getField b ''currency''
      in
        (if \<not> truthy pstatus \<or> \<not> is_string pstatus
         then [''paymentStatus is required and must be a string''] else []) @
        (if truthy pstatus \<and> \<not> includes_PaymentStatus pstatus
         then [''paymentStatus must be one of: PENDING, COMPLETED, FAILED, REFUNDED, CANCELLED'']
         else []) @
        (if truthy pid \<and> \<not> is_string pid
         then [''paymentId must be a string''] else []) @
        (if amount \<noteq> JUndefined
         then (if \<not> is_number amount \<or> amount_negative amount
               then [''amount must be a positive number''] else [])
         else []) @
        (if truthy currency \<and> \<not> is_string currency
         then [''currency must be a string''] else []) @
        (if truthy currency \<and> \<not> currency_test currency
         then [''currency must be a valid 3-letter ISO 4217 currency code (e.g., USD, EUR)'']
         else []) @
        (if pstatus = JStr ''COMPLETED'' \<and> \<not> truthy pid
         then [''paymentId is required when payment status is completed''] else []) @
        (if pstatus = JStr ''COMPLETED'' \<and> amount = JUndefined
         then [''amount is required when payment status is completed''] else []) @
        (if amount \<noteq> JUndefined \<and> \<not> truthy currency
         then [''currency is required when amount is provided''] else []))"

definition validatePaymentStatusUpdate :: "Request \<Rightarrow> Response option" where
  "validatePaymentStatusUpdate req =
     (let errors = paymentStatusUpdate_errors (body req)
      in if length errors > 0 then Some (Json 400 (validationFailed errors)) else None)"

section \<open>Magic link routes (src/routes/redirect.ts)\<close>

text \<open>\<open>process.env.FRONTEND_BASE_URL || 'https://usetextbook.com'\<close>\<close>

definition frontendBase :: "Env \<Rightarrow> string" where
  "frontendBase env =
     (case FRONTEND_BASE_URL env of
        None \<Rightarrow> ''https://usetextbook.com''
      | Some u \<Rightarrow> if u = [] then ''https://usetextbook.com'' else u)"

text \<open>
  The redirect target. \<open>URLSearchParams\<close> leaves the letters and the underscore of the
  enum names as they are.
\<close>

definition redirectUrl :: "Env \<Rightarrow> Booking \<Rightarrow> string" where
  "redirectUrl env booking =
     frontendBase env @ ''/booking/'' @ bookingId booking @ ''?'' @
     ''status='' @ BookingStatus_string (status booking) @
     ''&payment_status='' @ PaymentStatus_string (paymentStatus booking) @
     ''&source=magic_link''"

definition errorUrl :: "Env \<Rightarrow> string \<Rightarrow> string" where
  "errorUrl env reason = frontendBase env @ ''/booking/error?reason='' @ reason"

text \<open>
  The data \<open>{ accessCount: { increment: 1 }, lastAccessedAt: new Date() }\<close> of the two
  access updates.
\<close>

definition access_data :: "int \<Rightarrow> Booking \<Rightarrow> PrismaError + Booking" where
  "access_data t b =
     (if accessCount b + 1 > 2147483647 then Inl IntegerOutOfRange
      else Inr (b\<lparr>accessCount := accessCount b + 1, lastAccessedAt := Some t\<rparr>))"

definition internalError :: "string \<Rightarrow> Response" where
  "internalError msg = Json 500 (failure ''Internal server error'' msg)"

definition missingMagicLinkId :: "Response" where
  "missingMagicLinkId =
     Json 400 (failure ''Missing magic link ID'' ''Magic link ID parameter is required.'')"

definition bookingNotFound_magic :: "Response" where
  "bookingNotFound_magic =
     Json 404 (failure ''Booking not found''
       ''Unable to find booking with the provided magic link ID.'')"

text \<open>\<open>GET /appt/:magicLinkId\<close>: the handler.\<close>

definition redirect_handler :: "Env \<Rightarrow> Request \<Rightarrow> Store \<Rightarrow> Response \<times> Store" where
  "redirect_handler env req s =
     (case param req ''magicLinkId'' of
        None \<Rightarrow> (missingMagicLinkId, s)
      | Some m \<Rightarrow>
          if m = [] then (missingMagicLinkId, s)
          else
            (case booking_findUnique_magicLinkId m s of
               Inl e \<Rightarrow> (Redirect 302 (errorUrl env ''server_error''), s)
             | Inr None \<Rightarrow> (Redirect 302 (errorUrl env ''not_found''), s)
             | Inr (Some booking) \<Rightarrow>
                 (case booking_update_magicLinkId m (access_data (dateNow env)) s of
                    Inl e \<Rightarrow> (Redirect 302 (errorUrl env ''server_error''), s)
                  | Inr (updated, s1) \<Rightarrow>
                      (let s2 =
                         (case bookingAnalytics_create env (uuid booking)
                                 (JStr ''magic_link_click'')
                                 (js_or (opt_string (headerUserAgent req)) JNull)
                                 (js_or (opt_string (ip req)) JNull) s1 of
                            Inl analyticsError \<Rightarrow> s1
                          | Inr s' \<Rightarrow> s')
                       in (Redirect 302 (redirectUrl env booking), s2)))))"

text \<open>\<open>GET /appt/:magicLinkId/preview\<close>: the \<open>data\<close> of the answer, and the handler.\<close>

definition preview_data :: "Env \<Rightarrow> Request \<Rightarrow> string \<Rightarrow> Booking \<Rightarrow> (string \<times> jsval) list" where
  "preview_data env req m booking =
     [(''uuid'', JStr (uuid booking)),
      (''bookingId'', JStr (bookingId booking)),
      (''userName'', JStr (userName booking)),
      (''appointmentType'', JStr (AppointmentType_string (appointmentType booking))),
      (''status'', JStr (BookingStatus_string (status booking))),
      (''paymentStatus'', JStr (PaymentStatus_string (paymentStatus booking))),
      (''redirectUrl'', JStr (redirectUrl env booking)),
      (''magicLink'',
         JStr (protocol req @ ''://'' @
               (case headerHost req of None \<Rightarrow> ''undefined'' | Some h \<Rightarrow> h) @
               ''/appt/'' @ m)),
      (''createdAt'', JDate (createdAt booking))]"

definition preview_handler :: "Env \<Rightarrow> Request \<Rightarrow> Store \<Rightarrow> Response \<times> Store" where
  "preview_handler env req s =
     (case param req ''magicLinkId'' of
        None \<Rightarrow> (missingMagicLinkId, s)
      | Some m \<Rightarrow>
          if m = [] then (missingMagicLinkId, s)
          else
            (case booking_findUnique_magicLinkId m s of
               Inl e \<Rightarrow>
                 (internalError
                    ''An unexpected error occurred while previewing the magic link.'', s)
             | Inr None \<Rightarrow> (bookingNotFound_magic, s)
             | Inr (Some booking) \<Rightarrow>
                 (Json 200 (success (preview_data env req m booking)), s)))"

text \<open>\<open>POST /appt/:magicLinkId/track\<close>: the handler.\<close>

definition eventTracked :: "Response" where
  "eventTracked =
     Json 200 (JObj [(''success'', JBool True),
                     (''message'', JStr ''Event tracked successfully.'')])"

definition track_handler :: "Env \<Rightarrow> Request \<Rightarrow> Store \<Rightarrow> Response \<times> Store" where
  "track_handler env req s =
     (let event = getField (body req) ''event'';
          ua = getField (body req) ''userAgent'';
          ipa = getField (body req) ''ipAddress''
      in
       (case param req ''magicLinkId'' of
          None \<Rightarrow> (missingMagicLinkId, s)
        | Some m \<Rightarrow>
            if m = [] then (missingMagicLinkId, s)
            else
              (case booking_findUnique_magicLinkId m s of
                 Inl e \<Rightarrow>
                   (internalError
                      ''An unexpected error occurred while tracking the event.'', s)
               | Inr None \<Rightarrow> (bookingNotFound_magic, s)
               | Inr (Some booking) \<Rightarrow>
                   (case bookingAnalytics_create env (uuid booking)
                           (js_or event (JStr ''interaction''))
                           (js_or ua (js_or (opt_string (headerUserAgent req)) JNull))
                           (js_or ipa (js_or (opt_string (ip req)) JNull)) s of
                      Inl e \<Rightarrow>
                        (internalError
                           ''An unexpected error occurred while tracking the event.'', s)
                    | Inr s' \<Rightarrow>
                        (eventTracked, s')))))"

text \<open>
  \<open>GET /appt/:magicLinkId/analytics\<close>. The relation \<open>analytics\<close> of the booking is
  included with \<open>orderBy: { timestamp: 'desc' }\<close> and \<open>take: 50\<close>.
\<close>

definition include_analytics :: "Booking \<Rightarrow> Store \<Rightarrow> BookingAnalytics list" where
  "include_analytics booking s =
     take 50 (sort_key (\<lambda>e. - timestamp e)
                (filter (\<lambda>e. ownerId e = uuid booking) (analytics s)))"

definition analytics_event :: "BookingAnalytics \<Rightarrow> jsval" where
  "analytics_event event =
     JObj [(''eventType'', JStr (eventType event)),
           (''timestamp'', JDate (timestamp event)),
           (''userAgent'', nullable_string (userAgent event)),
           (''ipAddress'', nullable_string (ipAddress event))]"

definition analytics_data :: "Booking \<Rightarrow> BookingAnalytics list \<Rightarrow> (string \<times> jsval) list" where
  "analytics_data booking events =
     [(''bookingId'', JStr (bookingId booking)),
      (''accessCount'', JNum (real_of_int (accessCount booking))),
      (''lastAccessedAt'', iso_opt (lastAccessedAt booking)),
      (''analytics'', JArr (map analytics_event events))]"

definition analytics_handler :: "Env \<Rightarrow> Request \<Rightarrow> Store \<Rightarrow> Response \<times> Store" where
  "analytics_handler env req s =
     (case param req ''magicLinkId'' of
        None \<Rightarrow> (missingMagicLinkId, s)
      | Some m \<Rightarrow>
          if m = [] then (missingMagicLinkId, s)
          else
            (case booking_findUnique_magicLinkId m s of
               Inl e \<Rightarrow>
                 (internalError
                    ''An unexpected error occurred while retrieving analytics data.'', s)
             | Inr None \<Rightarrow> (bookingNotFound_magic, s)
             | Inr (Some booking) \<Rightarrow>
                 (Json 200 (success (analytics_data booking (include_analytics booking s))),
                  s)))"

text \<open>
  The routes as the router registers them. Express binds the path segment to the
  parameter the path names, \<open>magicLinkId\<close>, and runs the middleware of the route before
  its handler:
  \<^verbatim>\<open>router.get('/:magicLinkId', handler)\<close>
  \<^verbatim>\<open>router.get('/:magicLinkId/preview', validateNanoId, handler)\<close>
  \<^verbatim>\<open>router.post('/:magicLinkId/track', validateNanoId, handler)\<close>
  \<^verbatim>\<open>router.get('/:magicLinkId/analytics', validateNanoId, handler)\<close>
\<close>

definition bind :: "string \<Rightarrow> string \<Rightarrow> Request \<Rightarrow> Request" where
  "bind name segment req = req\<lparr>params := [(name, segment)]\<rparr>"

definition guarded ::
  "(Request \<Rightarrow> Response option) \<Rightarrow> (Request \<Rightarrow> Store \<Rightarrow> Response \<times> Store) \<Rightarrow>
   Request \<Rightarrow> Store \<Rightarrow> Response \<times> Store" where
  "guarded middleware handler req s =
     (case middleware req of
        Some response \<Rightarrow> (response, s)
      | None \<Rightarrow> handler req s)"

definition GET_appt :: "Env \<Rightarrow> string \<Rightarrow> Request \<Rightarrow> Store \<Rightarrow> Response \<times> Store" where
  "GET_appt env segment req s = redirect_handler env (bind ''magicLinkId'' segment req) s"

definition GET_appt_preview ::
  "Env \<Rightarrow> string \<Rightarrow> Request \<Rightarrow> Store \<Rightarrow> Response \<times> Store" where
  "GET_appt_preview env segment req s =
     guarded validateNanoId (preview_handler env) (bind ''magicLinkId'' segment req) s"

definition POST_appt_track ::
  "Env \<Rightarrow> string \<Rightarrow> Request \<Rightarrow> Store \<Rightarrow> Response \<times> Store" where
  "POST_appt_track env segment req s =
     guarded validateNanoId (track_handler env) (bind ''magicLinkId'' segment req) s"

definition GET_appt_analytics ::
  "Env \<Rightarrow> string \<Rightarrow> Request \<Rightarrow> Store \<Rightarrow> Response \<times> Store" where
  "GET_appt_analytics env segment req s =
     guarded validateNanoId (analytics_handler env) (bind ''magicLinkId'' segment req) s"

section \<open>Booking routes (src/routes/booking.ts)\<close>

text \<open>
  The body of a creation request after \<open>validateBookingRequest\<close> has accepted it:
  \<open>appointmentDate\<close> is the time value of \<open>new Date(appointmentDate)\<close>, and
  \<open>appointmentType\<close> one of the enum. That validator parses dates and phone numbers
  and never touches the store; it is not modelled.
\<close>

record CreateBookingRequest =
  req_userPhone :: string
  req_userName :: string
  req_appointmentType :: AppointmentType
  req_appointmentDate :: int
  req_bookingDetails :: jsval

definition magicLinkBase :: "Env \<Rightarrow> string" where
  "magicLinkBase env =
     (case MAGIC_LINK_BASE_URL env of
        None \<Rightarrow> ''https://tbook.me''
      | Some u \<Rightarrow> if u = [] then ''https://tbook.me'' else u)"

definition missingUUID :: "Response" where
  "missingUUID = Json 400 (failure ''Missing UUID'' ''UUID parameter is required.'')"

definition bookingNotFound_uuid :: "Response" where
  "bookingNotFound_uuid =
     Json 404 (failure ''Booking not found'' ''Unable to find booking with the provided UUID.'')"

text \<open>\<open>POST /api/booking/create\<close>\<close>

definition create_handler ::
  "Env \<Rightarrow> CreateBookingRequest \<Rightarrow> Store \<Rightarrow> Response \<times> Store" where
  "create_handler env r s =
     (let newBookingId =
            ''booking_'' @ number_to_string (dateNow env) @ ''_'' @ randomSuffix env;
          newMagicLinkId = nanoid12 env;
          expiresAt = calculateMagicLinkExpiration (dateNow env)
      in
       (case booking_create
               \<lparr>uuid = freshUuid env,
                bookingId = newBookingId,
                magicLinkId = newMagicLinkId,
                userName = req_userName r,
                userPhone = req_userPhone r,
                appointmentType = req_appointmentType r,
                appointmentDate = req_appointmentDate r,
                bookingDetails = js_or (req_bookingDetails r) (JObj []),
                status = PENDING_CONFIRMATION,
                paymentStatus = P_PENDING,
                paymentId = None,
                paymentAmount = None,
                paymentCurrency = None,
                createdAt = dateNow env,
                confirmedAt = None,
                paymentUpdatedAt = None,
                lastAccessedAt = None,
                magicLinkExpiresAt = Some expiresAt,
                accessCount = 0\<rparr> s of
          Inl e \<Rightarrow>
            (internalError ''An unexpected error occurred while creating the booking.'', s)
        | Inr (booking, s') \<Rightarrow>
            (Json 201 (success
               [(''bookingId'', JStr (bookingId booking)),
                (''uuid'', JStr (uuid booking)),
                (''magicLinkId'', JStr (magicLinkId booking)),
                (''magicLink'', JStr (magicLinkBase env @ ''/appt/'' @ newMagicLinkId)),
                (''status'', JStr (BookingStatus_string (status booking))),
                (''message'',
                   JStr ''Booking created successfully. Confirmation link sent to user.'')]),
             s')))"

text \<open>
  \<open>POST /api/booking/confirm/:uuid\<close>. The \<open>catch\<close> answers 404 when the message of
  the error holds \<open>Record to update not found\<close>, and 500 otherwise.
\<close>

definition confirm_data :: "int \<Rightarrow> Booking \<Rightarrow> PrismaError + Booking" where
  "confirm_data t b = Inr (b\<lparr>status := CONFIRMED, confirmedAt := Some t\<rparr>)"

definition confirm_response :: "Booking \<Rightarrow> Response" where
  "confirm_response booking =
     Json 200 (success
       [(''bookingId'', JStr (bookingId booking)),
        (''uuid'', JStr (uuid booking)),
        (''status'', JStr (BookingStatus_string (status booking))),
        (''message'', JStr ''Appointment confirmed successfully.'')])"

definition confirm_handler :: "Env \<Rightarrow> Request \<Rightarrow> Store \<Rightarrow> Response \<times> Store" where
  "confirm_handler env req s =
     (case param req ''uuid'' of
        None \<Rightarrow> (missingUUID, s)
      | Some u \<Rightarrow>
          if u = [] then (missingUUID, s)
          else
            (case booking_update_id env u (confirm_data (dateNow env)) s of
               Inr (booking, s') \<Rightarrow> (confirm_response booking, s')
             | Inl e \<Rightarrow>
                 if e = RecordNotFound then (bookingNotFound_uuid, s)
                 else (internalError
                         ''An unexpected error occurred while confirming the booking.'', s)))"

text \<open>
  \<open>PUT /api/booking/payment/:uuid\<close>. In the data of a Prisma update a field that is
  \<open>undefined\<close> is left as it is, \<open>null\<close> clears an optional column, and a value of
  another type than the column's is refused.
\<close>

fun prisma_PaymentStatus_field :: "jsval \<Rightarrow> PaymentStatus \<Rightarrow> PrismaError + PaymentStatus" where
  "prisma_PaymentStatus_field JUndefined cur = Inr cur"
| "prisma_PaymentStatus_field (JStr x) cur =
     (case PaymentStatus_of_string x of None \<Rightarrow> Inl ValidationError | Some p \<Rightarrow> Inr p)"
| "prisma_PaymentStatus_field v cur = Inl ValidationError"

text \<open>A string for an optional \<open>VARCHAR(n)\<close> column.\<close>

fun prisma_string_field ::
  "nat \<Rightarrow> jsval \<Rightarrow> string option \<Rightarrow> PrismaError + string option" where
  "prisma_string_field n JUndefined cur = Inr cur"
| "prisma_string_field n JNull cur = Inr None"
| "prisma_string_field n (JStr x) cur = andThen (store_varchar n x) (\<lambda>v. Inr (Some v))"
| "prisma_string_field n v cur = Inl ValidationError"

text \<open>
  A value for the optional \<open>DECIMAL(10,2)\<close> column: a number, or a value that the
  client reads as one.
\<close>

definition prisma_decimal_field ::
  "Env \<Rightarrow> jsval \<Rightarrow> real option \<Rightarrow> PrismaError + real option" where
  "prisma_decimal_field env v cur =
     (if v = JUndefined then Inr cur
      else if v = JNull then Inr None
      else (case (case v of JNum x \<Rightarrow> Some x | _ \<Rightarrow> readsDecimal env v) of
              None \<Rightarrow> Inl ValidationError
            | Some x \<Rightarrow> andThen (store_decimal_10_2 x) (\<lambda>d. Inr (Some d))))"

definition payment_data :: "Env \<Rightarrow> jsval \<Rightarrow> Booking \<Rightarrow> PrismaError + Booking" where
  "payment_data env b r =
     andThen (prisma_PaymentStatus_field (getField b ''paymentStatus'') (paymentStatus r))
       (\<lambda>ps.
     andThen (prisma_string_field 255 (getField b ''paymentId'') (paymentId r)) (\<lambda>pid.
     andThen (prisma_decimal_field env (getField b ''amount'') (paymentAmount r)) (\<lambda>amt.
     andThen (prisma_string_field 3 (getField b ''currency'') (paymentCurrency r)) (\<lambda>cur.
       Inr (r\<lparr>paymentStatus := ps, paymentId := pid, paymentAmount := amt,
              paymentCurrency := cur, paymentUpdatedAt := Some (dateNow env)\<rparr>)))))"

definition payment_response :: "Booking \<Rightarrow> Response" where
  "payment_response booking =
     Json 200 (success
       [(''bookingId'', JStr (bookingId booking)),
        (''uuid'', JStr (uuid booking)),
        (''paymentStatus'', JStr (PaymentStatus_string (paymentStatus booking))),
        (''message'', JStr ''Payment status updated successfully.'')])"

definition payment_handler :: "Env \<Rightarrow> Request \<Rightarrow> Store \<Rightarrow> Response \<times> Store" where
  "payment_handler env req s =
     (case param req ''uuid'' of
        None \<Rightarrow> (missingUUID, s)
      | Some u \<Rightarrow>
          if u = [] then (missingUUID, s)
          else
            (case booking_update_id env u (payment_data env (body req)) s of
               Inr (booking, s') \<Rightarrow> (payment_response booking, s')
             | Inl e \<Rightarrow>
                 if e = RecordNotFound then (bookingNotFound_uuid, s)
                 else (internalError
                         ''An unexpected error occurred while updating payment status.'', s)))"

text \<open>\<open>GET /api/booking/:id\<close>\<close>

definition getById_handler :: "Env \<Rightarrow> Request \<Rightarrow> Store \<Rightarrow> Response \<times> Store" where
  "getById_handler env req s =
     (case param req ''id'' of
        None \<Rightarrow> (missingUUID, s)
      | Some i \<Rightarrow>
          if i = [] then (missingUUID, s)
          else
            (case booking_findUnique_id env i s of
               Inl e \<Rightarrow>
                 (internalError
                    ''An unexpected error occurred while retrieving the booking.'', s)
             | Inr None \<Rightarrow> (bookingNotFound_uuid, s)
             | Inr (Some booking) \<Rightarrow>
                 (Json 200 (success
                    [(''bookingId'', JStr (bookingId booking)),
                     (''id'', JStr (uuid booking)),
                     (''userName'', JStr (userName booking)),
                     (''userPhone'', JStr (userPhone booking)),
                     (''appointmentType'',
                        JStr (AppointmentType_string (appointmentType booking))),
                     (''appointmentDate'', JDate (appointmentDate booking)),
                     (''status'', JStr (BookingStatus_string (status booking))),
                     (''paymentStatus'', JStr (PaymentStatus_string (paymentStatus booking))),
                     (''createdAt'', JDate (createdAt booking)),
                     (''confirmedAt'', iso_opt (confirmedAt booking)),
                     (''bookingDetails'', bookingDetails booking),
                     (''magicLinkId'', JStr (magicLinkId booking)),
                     (''isExpired'',
                        JBool (case magicLinkExpiresAt booking of
                                 None \<Rightarrow> False
                               | Some d \<Rightarrow> dateNow env > d))]), s)))"

text \<open>
  \<open>GET /api/booking/magic/:magicLinkId\<close>. The answer is built from the booking as it
  was read, before the access update.
\<close>

definition magic_data :: "Booking \<Rightarrow> (string \<times> jsval) list" where
  "magic_data booking =
     [(''bookingId'', JStr (bookingId booking)),
      (''uuid'', JStr (uuid booking)),
      (''userName'', JStr (userName booking)),
      (''userPhone'', JStr (userPhone booking)),
      (''appointmentType'', JStr (AppointmentType_string (appointmentType booking))),
      (''appointmentDate'', JDate (appointmentDate booking)),
      (''status'', JStr (BookingStatus_string (status booking))),
      (''paymentStatus'', JStr (PaymentStatus_string (paymentStatus booking))),
      (''createdAt'', JDate (createdAt booking)),
      (''confirmedAt'', iso_opt (confirmedAt booking)),
      (''bookingDetails'', bookingDetails booking),
      (''magicLinkId'', JStr (magicLinkId booking))]"

definition magicLinkExpired :: "Response" where
  "magicLinkExpired =
     Json 410 (failure ''Magic link expired''
       ''This magic link has expired and is no longer valid.'')"

definition magic_handler :: "Env \<Rightarrow> Request \<Rightarrow> Store \<Rightarrow> Response \<times> Store" where
  "magic_handler env req s =
     (case param req ''magicLinkId'' of
        None \<Rightarrow> (missingMagicLinkId, s)
      | Some m \<Rightarrow>
          if m = [] then (missingMagicLinkId, s)
          else
            (case booking_findUnique_magicLinkId m s of
               Inl e \<Rightarrow>
                 (internalError
                    ''An unexpected error occurred while retrieving the booking.'', s)
             | Inr None \<Rightarrow> (bookingNotFound_magic, s)
             | Inr (Some booking) \<Rightarrow>
                 if (case magicLinkExpiresAt booking of
                       None \<Rightarrow> False
                     | Some d \<Rightarrow> dateNow env > d)
                 then (magicLinkExpired, s)
                 else
                   (case booking_update_key (uuid booking) (access_data (dateNow env)) s of
                      Inl e \<Rightarrow>
                        (internalError
                           ''An unexpected error occurred while retrieving the booking.'', s)
                    | Inr (updated, s') \<Rightarrow>
                        (Json 200 (success (magic_data booking)), s'))))"

text \<open>
  The routes of the booking router:
  \<^verbatim>\<open>router.post('/create', validateBookingRequest, handler)\<close>
  \<^verbatim>\<open>router.post('/confirm/:uuid', handler)\<close>
  \<^verbatim>\<open>router.put('/payment/:uuid', validatePaymentStatusUpdate, handler)\<close>
  \<^verbatim>\<open>router.get('/:id', handler)\<close>
  \<^verbatim>\<open>router.get('/magic/:magicLinkId', handler)\<close>
\<close>

definition POST_booking_create ::
  "Env \<Rightarrow> CreateBookingRequest \<Rightarrow> Store \<Rightarrow> Response \<times> Store" where
  "POST_booking_create env r s = create_handler env r s"

definition POST_booking_confirm ::
  "Env \<Rightarrow> string \<Rightarrow> Request \<Rightarrow> Store \<Rightarrow> Response \<times> Store" where
  "POST_booking_confirm env segment req s = confirm_handler env (bind ''uuid'' segment req) s"

definition PUT_booking_payment ::
  "Env \<Rightarrow> string \<Rightarrow> Request \<Rightarrow> Store \<Rightarrow> Response \<times> Store" where
  "PUT_booking_payment env segment req s =
     guarded validatePaymentStatusUpdate (payment_handler env) (bind ''uuid'' segment req) s"

definition GET_booking :: "Env \<Rightarrow> string \<Rightarrow> Request \<Rightarrow> Store \<Rightarrow> Response \<times> Store" where
  "GET_booking env segment req s = getById_handler env (bind ''id'' segment req) s"

definition GET_booking_magic ::
  "Env \<Rightarrow> string \<Rightarrow> Request \<Rightarrow> Store \<Rightarrow> Response \<times> Store" where
  "GET_booking_magic env segment req s =
     magic_handler env (bind ''magicLinkId'' segment req) s"

section \<open>Operations of the core\<close>

text \<open>One request to one of the routes; a run is a list of requests with their readings.\<close>

datatype Operation =
    Create CreateBookingRequest
  | Confirm string Request
  | Payment string Request
  | GetById string Request
  | Magic string Request
  | Click string Request
  | Preview string Request
  | Track string Request
  | Analytics string Request

fun step :: "Env \<Rightarrow> Operation \<Rightarrow> Store \<Rightarrow> Response \<times> Store" where
  "step env (Create r) s = POST_booking_create env r s"
| "step env (Confirm u req) s = POST_booking_confirm env u req s"
| "step env (Payment u req) s = PUT_booking_payment env u req s"
| "step env (GetById u req) s = GET_booking env u req s"
| "step env (Magic m req) s = GET_booking_magic env m req s"
| "step env (Click m req) s = GET_appt env m req s"
| "step env (Preview m req) s = GET_appt_preview env m req s"
| "step env (Track m req) s = POST_appt_track env m req s"
| "step env (Analytics m req) s = GET_appt_analytics env m req s"

fun run :: "(Env \<times> Operation) list \<Rightarrow> Store \<Rightarrow> Store" where
  "run [] s = s"
| "run ((env, op) # rest) s = run rest (snd (step env op s))"

section \<open>Notions used by the properties\<close>

text \<open>
  The constraints of the schema on the table of bookings: the primary key and the two
  \<open>@unique\<close> columns.
\<close>

definition wf_store :: "Store \<Rightarrow> bool" where
  "wf_store s \<longleftrightarrow>
     distinct (map uuid (bookings s)) \<and>
     distinct (map bookingId (bookings s)) \<and>
     distinct (map magicLinkId (bookings s))"


text \<open>
  The analytics row of a click on the magic link of booking \<open>b\<close>, when the store takes
  the user agent and the address of the request; an absent or empty one is stored as
  \<open>null\<close>.
\<close>

definition or_null :: "string option \<Rightarrow> string option" where
  "or_null v = (case v of None \<Rightarrow> None | Some x \<Rightarrow> if x = [] then None else Some x)"

definition click_row :: "Env \<Rightarrow> Request \<Rightarrow> Booking \<Rightarrow> BookingAnalytics option" where
  "click_row env req b =
     (case store_optional store_text (or_null (headerUserAgent req)) of
        Inl e \<Rightarrow> None
      | Inr u \<Rightarrow>
          (case store_optional (store_inet env) (or_null (ip req)) of
             Inl e \<Rightarrow> None
           | Inr i \<Rightarrow>
               Some \<lparr>analyticsId = freshUuid env, ownerId = uuid b,
                     eventType = ''magic_link_click'', userAgent = u, ipAddress = i,
                     timestamp = dateNow env\<rparr>))"


text \<open>
  What an operation must keep of the bookings already stored: each row stays at its place
  with its key, its expiration date and an access count that is not smaller.
\<close>

definition booking_preserved :: "Booking \<Rightarrow> Booking \<Rightarrow> bool" where
  "booking_preserved b b' \<longleftrightarrow>
     uuid b' = uuid b \<and> accessCount b \<le> accessCount b' \<and>
     magicLinkExpiresAt b' = magicLinkExpiresAt b"

definition store_preserved :: "Store \<Rightarrow> Store \<Rightarrow> bool" where
  "store_preserved s s' \<longleftrightarrow>
     length (bookings s) \<le> length (bookings s') \<and>
     list_all2 booking_preserved (bookings s) (take (length (bookings s)) (bookings s'))"

fun status_code :: "Response \<Rightarrow> nat" where
  "status_code (Json n v) = n"
| "status_code (Redirect n url) = n"

text \<open>
  Sample readings of the store, for the sample values below. They take the usual spellings
  and refuse every other text; a store may take more spellings than these. A UUID is read
  from its spelling in groups of 8, 4, 4, 4 and 12 hexadecimal digits, with the letters in
  lower case; an address from four decimal numbers below 256, written without leading
  zeros; and no amount from a value that is not a number.
\<close>

definition lower_hex :: "char \<Rightarrow> char option" where
  "lower_hex c = map_of (zip ''0123456789abcdefABCDEF'' ''0123456789abcdefabcdef'') c"

fun hex_groups :: "nat list \<Rightarrow> string \<Rightarrow> string option" where
  "hex_groups [] x = (if x = [] then Some [] else None)"
| "hex_groups (n # ns) x =
     (if length x < n then None
      else
        (case those (map lower_hex (take n x)) of
           None \<Rightarrow> None
         | Some g \<Rightarrow>
             if ns = [] then (if drop n x = [] then Some g else None)
             else
               (case drop n x of
                  [] \<Rightarrow> None
                | c # rest \<Rightarrow>
                    if c = CHR ''-''
                    then map_option (\<lambda>t. g @ ''-'' @ t) (hex_groups ns rest)
                    else None)))"

definition sample_readsUuid :: "string \<Rightarrow> string option" where
  "sample_readsUuid x = hex_groups [8, 4, 4, 4, 12] x"

fun decimal_value :: "nat \<Rightarrow> string \<Rightarrow> nat" where
  "decimal_value acc [] = acc"
| "decimal_value acc (c # cs) =
     decimal_value (10 * acc + length (takeWhile (\<lambda>d. d \<noteq> c) ''0123456789'')) cs"

definition is_byte_number :: "string \<Rightarrow> bool" where
  "is_byte_number x =
     (x \<noteq> [] \<and> length x \<le> 3 \<and> list_all (\<lambda>c. c \<in> set ''0123456789'') x \<and>
      (length x = 1 \<or> take 1 x \<noteq> ''0'') \<and> decimal_value 0 x < 256)"

fun split_dots :: "string \<Rightarrow> string \<Rightarrow> string list" where
  "split_dots cur [] = [rev cur]"
| "split_dots cur (c # cs) =
     (if c = CHR ''.'' then rev cur # split_dots [] cs else split_dots (c # cur) cs)"

definition sample_readsInet :: "string \<Rightarrow> string option" where
  "sample_readsInet x =
     (let parts = split_dots [] x
      in if length parts = 4 \<and> list_all is_byte_number parts then Some x else None)"

definition sample_readsDecimal :: "jsval \<Rightarrow> real option" where
  "sample_readsDecimal v = None"

text \<open>Sample values: a booking created at time 1000, its store, a clock and a request.\<close>

definition sample_booking :: Booking where
  "sample_booking =
     \<lparr>uuid = ''3b241101-e2bb-4255-8caf-4136c566a962'',
      bookingId = ''booking_1000_k3j9x2m1q'',
      magicLinkId = ''V1StGXR8_Z5j'',
      userName = ''Test User'',
      userPhone = ''+1234567890'',
      appointmentType = CONSULTATION,
      appointmentDate = 86401000,
      bookingDetails = JObj [],
      status = PENDING_CONFIRMATION,
      paymentStatus = P_PENDING,
      paymentId = None,
      paymentAmount = None,
      paymentCurrency = None,
      createdAt = 1000,
      confirmedAt = None,
      paymentUpdatedAt = None,
      lastAccessedAt = None,
      magicLinkExpiresAt = Some 3601000,
      accessCount = 0\<rparr>"

definition sample_store :: Store where
  "sample_store = \<lparr>bookings = [sample_booking], analytics = []\<rparr>"

definition sample_env :: "int \<Rightarrow> Env" where
  "sample_env t =
     \<lparr>dateNow = t, FRONTEND_BASE_URL = None, MAGIC_LINK_BASE_URL = None,
      freshUuid = ''7c9e6679-7425-40de-944b-e07fc1f90ae7'',
      randomSuffix = ''a1b2c3d4e'', nanoid12 = ''Zx8_q-Lm02Rt'',
      analyticsInsertFails = False, readsUuid = sample_readsUuid,
      readsInet = sample_readsInet, readsDecimal = sample_readsDecimal\<rparr>"

definition sample_request :: "jsval \<Rightarrow> Request" where
  "sample_request b =
     \<lparr>params = [], body = b, headerUserAgent = Some ''curl/8.0'',
      headerHost = Some ''localhost:3000'', ip = Some ''127.0.0.1'', protocol = ''http''\<rparr>"

text \<open>Sample analytics rows of the sample booking, and a sample run of requests.\<close>

definition sample_event :: "string \<Rightarrow> int \<Rightarrow> BookingAnalytics" where
  "sample_event e t =
     \<lparr>analyticsId = ''7c9e6679-7425-40de-944b-e07fc1f90ae7'',
      ownerId = ''3b241101-e2bb-4255-8caf-4136c566a962'',
      eventType = e, userAgent = Some ''curl/8.0'', ipAddress = Some ''127.0.0.1'',
      timestamp = t\<rparr>"

definition sample_tracked_store :: Store where
  "sample_tracked_store =
     \<lparr>bookings = [sample_booking],
      analytics = [sample_event ''magic_link_click'' 2000, sample_event ''interaction'' 5000,
                   sample_event ''booking_view'' 3000]\<rparr>"

definition sample_run :: "(Env \<times> Operation) list" where
  "sample_run =
     [(sample_env 2000, Click ''V1StGXR8_Z5j'' (sample_request (JObj []))),
      (sample_env 3000, Confirm ''3b241101-e2bb-4255-8caf-4136c566a962'' (sample_request (JObj []))),
      (sample_env 4000, Payment ''3b241101-e2bb-4255-8caf-4136c566a962''
         (sample_request (JObj [(''paymentStatus'', JStr ''COMPLETED''),
                                (''paymentId'', JStr ''pay_123''),
                                (''amount'', JNum 20), (''currency'', JStr ''USD'')]))),
      (sample_env 5000, Magic ''V1StGXR8_Z5j'' (sample_request (JObj []))),
      (sample_env 3700000, Magic ''V1StGXR8_Z5j'' (sample_request (JObj []))),
      ((sample_env 3800000)\<lparr>freshUuid := ''0d9f4a1c-5b7e-4c2a-9e3f-6a8b7c5d4e3f''\<rparr>,
       Create \<lparr>req_userPhone = ''+1987654321'', req_userName = ''Jane Smith'',
         req_appointmentType = TUTORIAL, req_appointmentDate = 90000000,
         req_bookingDetails = JUndefined\<rparr>)]"

section \<open>Properties of the policy\<close>

lemma nat_to_string_not_empty: "nat_to_string n \<noteq> []"
  by (subst nat_to_string.simps) simp

lemma number_to_string_not_empty: "number_to_string i \<noteq> []"
  by (simp add: number_to_string_def nat_to_string_not_empty)

lemma ends_in_m_not_Expired: "xs @ ''m'' \<noteq> ''Expired''"
proof
  assume "xs @ ''m'' = ''Expired''"
  then have "last (xs @ ''m'') = last ''Expired''" by simp
  then show False by simp
qed

lemma formatTimeRemaining_positive:
  assumes "now < d"
  shows "formatTimeRemaining (Some d) now =
     (if 3600000 \<le> d - now
      then number_to_string ((d - now) div 3600000) @ ''h '' @
           number_to_string ((d - now) div 60000 mod 60) @ ''m''
      else number_to_string ((d - now) div 60000) @ ''m'')"
proof -
  have m: "max 0 (d - now) = d - now" using assms by simp
  have h: "(d - now) div 60000 div 60 = (d - now) div 3600000"
    by (simp add: div_mult2_eq [symmetric])
  have pos: "(0 < (d - now) div 3600000) = (3600000 \<le> d - now)"
    using assms by (simp add: pos_imp_zdiv_pos_iff)
  show ?thesis
    using assms
    by (simp add: formatTimeRemaining_def getTimeUntilExpiration_def m h pos Let_def)
qed

text \<open>
  Claim C4. The expiry predicate is false for every clock value when the expiration date
  is absent; when a date \<open>t\<close> is present it is true exactly when \<open>now > t\<close>, so at
  \<open>now = t\<close> the link is not expired.
\<close>

theorem isMagicLinkExpired_spec:
  "isMagicLinkExpired None now = False \<and>
   isMagicLinkExpired (Some t) now = (now > t) \<and>
   isMagicLinkExpired (Some t) t = False"
  by (simp add: isMagicLinkExpired_def)

text \<open>
  Claim C7. \<open>formatTimeRemaining\<close> returns \<open>No expiration\<close> when the date is absent.
  When the date is present the remaining time is \<open>max(0, d - now)\<close>: it is zero exactly
  when the date is not in the future, and \<open>Expired\<close> is returned exactly then, also for a
  date long past. Otherwise the result is \<open>{h}h {m}m\<close> when at least one full hour
  remains and \<open>{m}m\<close> when less; at the creation time a freshly computed expiration is
  rendered \<open>1h 0m\<close>, never \<open>Expired\<close>.
\<close>

theorem formatTimeRemaining_spec:
  "formatTimeRemaining None now = ''No expiration'' \<and>
   getTimeUntilExpiration None now = Infinity \<and>
   getTimeUntilExpiration (Some d) now = Millis (if d \<le> now then 0 else d - now) \<and>
   (d \<le> now \<longrightarrow> formatTimeRemaining (Some d) now = ''Expired'') \<and>
   (now < d \<longrightarrow> formatTimeRemaining (Some d) now \<noteq> ''Expired'') \<and>
   (formatTimeRemaining (Some d) now = ''Expired'' \<longleftrightarrow>
      getTimeUntilExpiration (Some d) now = Millis 0) \<and>
   (3600000 \<le> d - now \<longrightarrow>
      formatTimeRemaining (Some d) now =
        number_to_string ((d - now) div 3600000) @ ''h '' @
        number_to_string ((d - now) div 60000 mod 60) @ ''m'') \<and>
   (0 < d - now \<and> d - now < 3600000 \<longrightarrow>
      formatTimeRemaining (Some d) now = number_to_string ((d - now) div 60000) @ ''m'') \<and>
   formatTimeRemaining (Some (calculateMagicLinkExpiration now)) now = ''1h 0m'' \<and>
   formatTimeRemaining (Some (calculateMagicLinkExpiration now)) now \<noteq> ''Expired''"
proof -
  have absent: "formatTimeRemaining None now = ''No expiration''"
    by (simp add: formatTimeRemaining_def)
  have unbounded: "getTimeUntilExpiration None now = Infinity"
    by (simp add: getTimeUntilExpiration_def)
  have remaining:
    "getTimeUntilExpiration (Some d) now = Millis (if d \<le> now then 0 else d - now)"
    by (simp add: getTimeUntilExpiration_def Let_def max_def)
  have past: "d \<le> now \<longrightarrow> formatTimeRemaining (Some d) now = ''Expired''"
    by (simp add: formatTimeRemaining_def remaining)
  have future: "now < d \<longrightarrow> formatTimeRemaining (Some d) now \<noteq> ''Expired''"
  proof
    assume lt: "now < d"
    show "formatTimeRemaining (Some d) now \<noteq> ''Expired''"
      unfolding formatTimeRemaining_positive [OF lt]
      using ends_in_m_not_Expired [of "number_to_string ((d - now) div 3600000) @ ''h '' @
           number_to_string ((d - now) div 60000 mod 60)"]
        ends_in_m_not_Expired [of "number_to_string ((d - now) div 60000)"]
      by simp
  qed
  have expired: "formatTimeRemaining (Some d) now = ''Expired'' \<longleftrightarrow>
      getTimeUntilExpiration (Some d) now = Millis 0"
  proof (cases "d \<le> now")
    case True
    then show ?thesis using past by (simp add: remaining)
  next
    case False
    then show ?thesis using future by (simp add: remaining)
  qed
  have hours: "3600000 \<le> d - now \<longrightarrow>
      formatTimeRemaining (Some d) now =
        number_to_string ((d - now) div 3600000) @ ''h '' @
        number_to_string ((d - now) div 60000 mod 60) @ ''m''"
    using formatTimeRemaining_positive [of now d] by simp
  have minutes: "0 < d - now \<and> d - now < 3600000 \<longrightarrow>
      formatTimeRemaining (Some d) now = number_to_string ((d - now) div 60000) @ ''m''"
    using formatTimeRemaining_positive [of now d] by simp
  have fresh: "formatTimeRemaining (Some (calculateMagicLinkExpiration now)) now = ''1h 0m''"
    using formatTimeRemaining_positive [of now "now + 3600000"]
    by (simp add: calculateMagicLinkExpiration_def number_to_string_def nat_to_string.simps
          digit_char_def)
  have fresh_ne: "formatTimeRemaining (Some (calculateMagicLinkExpiration now)) now \<noteq> ''Expired''"
    by (simp add: fresh)
  from absent unbounded remaining past future expired hours minutes fresh fresh_ne
  show ?thesis by blast
qed

theorem formatTimeRemaining_spec_witness:
  "formatTimeRemaining None 0 = ''No expiration'' \<and>
   getTimeUntilExpiration (Some 1000) 1000 = Millis 0 \<and>
   formatTimeRemaining (Some 1000) 1000 = ''Expired'' \<and>
   getTimeUntilExpiration (Some 1000) 7200000 = Millis 0 \<and>
   formatTimeRemaining (Some 1000) 7200000 = ''Expired'' \<and>
   getTimeUntilExpiration (Some 5400000) 0 = Millis 5400000 \<and>
   formatTimeRemaining (Some 5400000) 0 = ''1h 30m'' \<and>
   formatTimeRemaining (Some 2700000) 0 = ''45m'' \<and>
   formatTimeRemaining (Some 59999) 0 = ''0m'' \<and>
   formatTimeRemaining (Some (calculateMagicLinkExpiration 1000)) 1000 = ''1h 0m''"
  using formatTimeRemaining_spec [of 0 5400000]
    formatTimeRemaining_spec [of 0 2700000]
    formatTimeRemaining_spec [of 0 59999]
    formatTimeRemaining_spec [of 1000 1000]
    formatTimeRemaining_spec [of 7200000 1000]
  by (simp add: number_to_string_def nat_to_string.simps digit_char_def)

section \<open>Properties of the store and of the routes\<close>

subsection \<open>Lists and lookups\<close>

lemma find_map_same:
  assumes "\<And>x. P (g x) = P x"
  shows "find P (map g xs) = map_option g (find P xs)"
  using assms by (induction xs) auto


lemma find_Some_holds: "find P xs = Some x \<Longrightarrow> P x"
  by (induction xs) (auto split: if_splits)


lemma find_after_update:
  assumes f: "find Q xs = Some b"
    and keep: "\<And>r. Q (apply_data data r) = Q r"
    and hit: "wh b"
  shows "find Q (map (\<lambda>r. if wh r then apply_data data r else r) xs) = Some (apply_data data b)"
proof -
  have "\<And>x. Q ((\<lambda>r. if wh r then apply_data data r else r) x) = Q x"
    using keep by simp
  then have "find Q (map (\<lambda>r. if wh r then apply_data data r else r) xs)
      = map_option (\<lambda>r. if wh r then apply_data data r else r) (find Q xs)"
    by (rule find_map_same)
  then show ?thesis using f hit by simp
qed

subsection \<open>Calls of the store\<close>

lemma andThen_Inl: "andThen (Inl e) f = Inl e"
  by (simp add: andThen_def)

lemma andThen_Inr: "andThen (Inr v) f = f v"
  by (simp add: andThen_def)

lemma andThen_eq_Inr: "andThen r f = Inr y \<longleftrightarrow> (\<exists>v. r = Inr v \<and> f v = Inr y)"
  by (cases r) (simp_all add: andThen_def)

lemma findUnique_magicLinkId_Inr:
  "booking_findUnique_magicLinkId m s = Inr r \<longleftrightarrow>
     \<not> has_zero_byte m \<and> r = find (\<lambda>x. magicLinkId x = m) (bookings s)"
  by (auto simp: booking_findUnique_magicLinkId_def store_text_def andThen_def)

lemma findUnique_magicLinkId_Inl:
  "(\<exists>e. booking_findUnique_magicLinkId m s = Inl e) \<longleftrightarrow> has_zero_byte m"
  by (auto simp: booking_findUnique_magicLinkId_def store_text_def andThen_def)

lemma findUnique_id_Inr:
  "booking_findUnique_id env i s = Inr r \<longleftrightarrow>
     (\<exists>v. readsUuid env i = Some v \<and> r = find (\<lambda>x. uuid x = v) (bookings s))"
  by (auto simp: booking_findUnique_id_def store_uuid_def andThen_def split: option.splits)


subsection \<open>Requests and middleware\<close>

lemma param_bind: "param (bind name segment req) name = Some segment"
  by (simp add: bind_def param_def)

lemma body_bind: "body (bind name segment req) = body req"
  by (simp add: bind_def)

lemma validateNanoId_bind:
  "validateNanoId (bind ''magicLinkId'' segment req) = Some invalidMagicLinkId"
  by (simp add: validateNanoId_def bind_def param_def)

lemma guarded_validateNanoId:
  "guarded validateNanoId handler (bind ''magicLinkId'' segment req) s = (invalidMagicLinkId, s)"
  by (simp add: guarded_def validateNanoId_bind)

lemma inline_expiry_check:
  "(case d of None \<Rightarrow> False | Some t \<Rightarrow> n > t) = isMagicLinkExpired d n"
  by (simp add: isMagicLinkExpired_def)

subsection \<open>The access update\<close>




lemma header_or_null:
  "prisma_nullable_string (js_or (opt_string v) JNull) = Inr (or_null v)"
  by (cases v) (simp_all add: js_or_def opt_string_def or_null_def)


lemma store_varchar_interaction: "store_varchar 100 ''interaction'' = Inr ''interaction''"
  by (simp add: store_varchar_def has_zero_byte_def utf8_length_def)




subsection \<open>The three resolver paths on a known token\<close>




lemma GET_booking_magic_expired:
  assumes found: "booking_findUnique_magicLinkId m s = Inr (Some b)"
    and m: "m \<noteq> []"
    and expired: "isMagicLinkExpired (magicLinkExpiresAt b) (dateNow env)"
  shows "GET_booking_magic env m req s = (magicLinkExpired, s)"
  unfolding GET_booking_magic_def magic_handler_def
  using assms by (simp add: param_bind inline_expiry_check)

lemma preview_handler_known:
  assumes found: "booking_findUnique_magicLinkId m s = Inr (Some b)"
    and m: "m \<noteq> []"
  shows "preview_handler env (bind ''magicLinkId'' m req) s =
     (Json 200 (success (preview_data env (bind ''magicLinkId'' m req) m b)), s)"
  unfolding preview_handler_def using assms by (simp add: param_bind)

text \<open>The preview handler has no answer 410.\<close>

lemma preview_handler_never_gone: "status_code (fst (preview_handler env req s)) \<noteq> 410"
  unfolding preview_handler_def
  by (simp add: missingMagicLinkId_def bookingNotFound_magic_def internalError_def
        split: option.splits sum.splits)

text \<open>
  The three routes behind \<open>validateNanoId\<close>: the route binds \<open>magicLinkId\<close> and
  the middleware looks \<open>nanoid\<close> up, finds nothing and answers 400, whatever the token.
\<close>

lemma GET_appt_preview_always:
  "GET_appt_preview env m req s = (invalidMagicLinkId, s)"
  by (simp add: GET_appt_preview_def guarded_validateNanoId)

lemma POST_appt_track_always:
  "POST_appt_track env m req s = (invalidMagicLinkId, s)"
  by (simp add: POST_appt_track_def guarded_validateNanoId)

lemma GET_appt_analytics_always:
  "GET_appt_analytics env m req s = (invalidMagicLinkId, s)"
  by (simp add: GET_appt_analytics_def guarded_validateNanoId)

subsection \<open>Tokens that resolve to no booking\<close>

lemma GET_appt_unknown:
  assumes "booking_findUnique_magicLinkId m s = Inr None" and "m \<noteq> []"
  shows "GET_appt env m req s = (Redirect 302 (errorUrl env ''not_found''), s)"
  unfolding GET_appt_def redirect_handler_def
  using assms by (simp add: param_bind)

lemma GET_booking_magic_unknown:
  assumes "booking_findUnique_magicLinkId m s = Inr None" and "m \<noteq> []"
  shows "GET_booking_magic env m req s = (bookingNotFound_magic, s)"
  unfolding GET_booking_magic_def magic_handler_def
  using assms by (simp add: param_bind)

lemma preview_handler_unknown:
  assumes "booking_findUnique_magicLinkId m s = Inr None" and "m \<noteq> []"
  shows "preview_handler env (bind ''magicLinkId'' m req) s = (bookingNotFound_magic, s)"
  unfolding preview_handler_def using assms by (simp add: param_bind)

lemma track_handler_unknown:
  assumes "booking_findUnique_magicLinkId m s = Inr None" and "m \<noteq> []"
  shows "track_handler env (bind ''magicLinkId'' m req) s = (bookingNotFound_magic, s)"
  unfolding track_handler_def using assms by (simp add: param_bind Let_def)

text \<open>A token that the store refuses to look for: the \<open>catch\<close> of each handler answers.\<close>

lemma GET_appt_refused:
  assumes "booking_findUnique_magicLinkId m s = Inl e" and "m \<noteq> []"
  shows "GET_appt env m req s = (Redirect 302 (errorUrl env ''server_error''), s)"
  unfolding GET_appt_def redirect_handler_def
  using assms by (simp add: param_bind)

lemma GET_booking_magic_refused:
  assumes "booking_findUnique_magicLinkId m s = Inl e" and "m \<noteq> []"
  shows "GET_booking_magic env m req s =
     (internalError ''An unexpected error occurred while retrieving the booking.'', s)"
  unfolding GET_booking_magic_def magic_handler_def
  using assms by (simp add: param_bind)

lemma preview_handler_refused:
  assumes "booking_findUnique_magicLinkId m s = Inl e" and "m \<noteq> []"
  shows "preview_handler env (bind ''magicLinkId'' m req) s =
     (internalError ''An unexpected error occurred while previewing the magic link.'', s)"
  unfolding preview_handler_def using assms by (simp add: param_bind)

lemma track_handler_refused:
  assumes "booking_findUnique_magicLinkId m s = Inl e" and "m \<noteq> []"
  shows "track_handler env (bind ''magicLinkId'' m req) s =
     (internalError ''An unexpected error occurred while tracking the event.'', s)"
  unfolding track_handler_def using assms by (simp add: param_bind Let_def)

text \<open>Without a booking to work on, the two unguarded paths leave the store as it is.\<close>

lemma GET_appt_unresolved:
  assumes "\<And>b. booking_findUnique_magicLinkId m s \<noteq> Inr (Some b)"
  shows "snd (GET_appt env m req s) = s"
  unfolding GET_appt_def redirect_handler_def
  using assms by (auto simp: param_bind split: sum.splits option.splits)

lemma GET_booking_magic_unresolved:
  assumes "\<And>b. booking_findUnique_magicLinkId m s \<noteq> Inr (Some b)"
  shows "snd (GET_booking_magic env m req s) = s"
  unfolding GET_booking_magic_def magic_handler_def
  using assms by (auto simp: param_bind split: sum.splits option.splits)


subsection \<open>Preservation\<close>

lemma booking_preserved_refl: "booking_preserved b b"
  by (simp add: booking_preserved_def)

lemma booking_preserved_trans:
  "booking_preserved a b \<Longrightarrow> booking_preserved b c \<Longrightarrow> booking_preserved a c"
  by (auto simp: booking_preserved_def)

lemma store_preserved_nth:
  "store_preserved s s' \<longleftrightarrow>
     length (bookings s) \<le> length (bookings s') \<and>
     (\<forall>i < length (bookings s). booking_preserved (bookings s ! i) (bookings s' ! i))"
  by (auto simp: store_preserved_def list_all2_conv_all_nth)

lemma store_preserved_refl: "store_preserved s s"
  by (simp add: store_preserved_nth booking_preserved_refl)

lemma store_preserved_trans:
  "store_preserved a b \<Longrightarrow> store_preserved b c \<Longrightarrow> store_preserved a c"
  unfolding store_preserved_nth
  by (meson booking_preserved_trans le_trans less_le_trans)

lemma store_preserved_same_bookings:
  "bookings s' = bookings s \<Longrightarrow> store_preserved s s'"
  by (simp add: store_preserved_nth booking_preserved_refl)

lemma store_preserved_map:
  assumes "\<And>r. booking_preserved r (g r)"
  shows "store_preserved s (s\<lparr>bookings := map g (bookings s)\<rparr>)"
  using assms by (simp add: store_preserved_nth)

lemma store_preserved_append:
  "store_preserved s (s\<lparr>bookings := bookings s @ [b]\<rparr>)"
  by (simp add: store_preserved_nth nth_append booking_preserved_refl)

lemma update_rows_preserved:
  assumes ok: "\<And>r r'. data r = Inr r' \<Longrightarrow> booking_preserved r r'"
    and upd: "update_rows wh data s = Inr (b, s')"
  shows "store_preserved s s'"
proof -
  have "\<And>r. booking_preserved r (if wh r then apply_data data r else r)"
    using ok by (auto simp: apply_data_def booking_preserved_refl split: sum.splits)
  then have "store_preserved s
     (s\<lparr>bookings := map (\<lambda>r. if wh r then apply_data data r else r) (bookings s)\<rparr>)"
    by (rule store_preserved_map)
  then show ?thesis
    using upd by (auto simp: update_rows_def split: option.splits sum.splits)
qed

lemma booking_update_magicLinkId_preserved:
  assumes "\<And>r r'. data r = Inr r' \<Longrightarrow> booking_preserved r r'"
    and "booking_update_magicLinkId m data s = Inr (b, s')"
  shows "store_preserved s s'"
  using assms(2) update_rows_preserved [of data _ s b s', OF assms(1)]
  by (auto simp: booking_update_magicLinkId_def andThen_eq_Inr)

lemma booking_update_id_preserved:
  assumes "\<And>r r'. data r = Inr r' \<Longrightarrow> booking_preserved r r'"
    and "booking_update_id env u data s = Inr (b, s')"
  shows "store_preserved s s'"
  using assms(2) update_rows_preserved [of data _ s b s', OF assms(1)]
  by (auto simp: booking_update_id_def andThen_eq_Inr)

lemma booking_update_key_preserved:
  assumes "\<And>r r'. data r = Inr r' \<Longrightarrow> booking_preserved r r'"
    and "booking_update_key k data s = Inr (b, s')"
  shows "store_preserved s s'"
  using assms(2) update_rows_preserved [of data _ s b s', OF assms(1)]
  by (auto simp: booking_update_key_def)

lemma access_data_preserved: "access_data t r = Inr r' \<Longrightarrow> booking_preserved r r'"
  by (auto simp: access_data_def booking_preserved_def split: if_splits)

lemma confirm_data_preserved: "confirm_data t r = Inr r' \<Longrightarrow> booking_preserved r r'"
  by (auto simp: confirm_data_def booking_preserved_def)

lemma payment_data_preserved: "payment_data env v r = Inr r' \<Longrightarrow> booking_preserved r r'"
  by (auto simp: payment_data_def booking_preserved_def andThen_eq_Inr)

lemma bookingAnalytics_create_bookings:
  "bookingAnalytics_create env owner ev ua ipa s = Inr s' \<Longrightarrow> bookings s' = bookings s"
  by (auto simp: bookingAnalytics_create_def andThen_eq_Inr split: if_splits)

lemma bookingAnalytics_create_preserved:
  "bookingAnalytics_create env owner ev ua ipa s = Inr s' \<Longrightarrow> store_preserved s s'"
  by (rule store_preserved_same_bookings) (rule bookingAnalytics_create_bookings)

lemma redirect_update_preserved:
  "booking_update_magicLinkId m (access_data t) s = Inr (b, s') \<Longrightarrow> store_preserved s s'"
  by (rule booking_update_magicLinkId_preserved [of "access_data t"])
     (rule access_data_preserved)

lemma magic_update_preserved:
  "booking_update_key k (access_data t) s = Inr (b, s') \<Longrightarrow> store_preserved s s'"
  by (rule booking_update_key_preserved [of "access_data t"]) (rule access_data_preserved)

lemma confirm_update_preserved:
  "booking_update_id env u (confirm_data t) s = Inr (b, s') \<Longrightarrow> store_preserved s s'"
  by (rule booking_update_id_preserved [of "confirm_data t"]) (rule confirm_data_preserved)

lemma payment_update_preserved:
  "booking_update_id env u (payment_data env' v) s = Inr (b, s') \<Longrightarrow> store_preserved s s'"
  by (rule booking_update_id_preserved [of "payment_data env' v"])
     (rule payment_data_preserved)

lemma redirect_handler_preserved: "store_preserved s (snd (redirect_handler env req s))"
  unfolding redirect_handler_def
  by (auto simp: Let_def store_preserved_refl split: option.splits sum.splits
           dest!: redirect_update_preserved bookingAnalytics_create_preserved
           intro: store_preserved_trans)

lemma magic_handler_preserved: "store_preserved s (snd (magic_handler env req s))"
  unfolding magic_handler_def
  by (auto simp: store_preserved_refl split: option.splits sum.splits
           dest!: magic_update_preserved)

lemma confirm_handler_preserved: "store_preserved s (snd (confirm_handler env req s))"
  unfolding confirm_handler_def
  by (auto simp: store_preserved_refl split: option.splits sum.splits
           dest!: confirm_update_preserved)

lemma payment_handler_preserved: "store_preserved s (snd (payment_handler env req s))"
  unfolding payment_handler_def
  by (auto simp: store_preserved_refl split: option.splits sum.splits
           dest!: payment_update_preserved)

lemma booking_create_appends:
  "booking_create b s = Inr (row, s') \<Longrightarrow> s' = s\<lparr>bookings := bookings s @ [row]\<rparr>"
  by (auto simp: booking_create_def andThen_eq_Inr Let_def split: if_splits)

lemma create_handler_preserved: "store_preserved s (snd (create_handler env r s))"
  unfolding create_handler_def
  by (auto simp: Let_def store_preserved_refl store_preserved_append
           split: sum.splits dest!: booking_create_appends)

lemma getById_handler_same: "snd (getById_handler env req s) = s"
  unfolding getById_handler_def by (simp split: option.splits sum.splits)

lemma guarded_preserved:
  assumes "\<And>r. store_preserved s (snd (handler r s))"
  shows "store_preserved s (snd (guarded middleware handler req s))"
  using assms by (simp add: guarded_def store_preserved_refl split: option.splits)

lemma step_preserved: "store_preserved s (snd (step env op s))"
proof (cases op)
  case (Create r)
  then show ?thesis by (simp add: POST_booking_create_def create_handler_preserved)
next
  case (Confirm u req)
  then show ?thesis by (simp add: POST_booking_confirm_def confirm_handler_preserved)
next
  case (Payment u req)
  then show ?thesis
    by (simp add: PUT_booking_payment_def guarded_preserved payment_handler_preserved)
next
  case (GetById u req)
  then show ?thesis by (simp add: GET_booking_def getById_handler_same store_preserved_refl)
next
  case (Magic m req)
  then show ?thesis by (simp add: GET_booking_magic_def magic_handler_preserved)
next
  case (Click m req)
  then show ?thesis by (simp add: GET_appt_def redirect_handler_preserved)
next
  case (Preview m req)
  then show ?thesis by (simp add: GET_appt_preview_always store_preserved_refl)
next
  case (Track m req)
  then show ?thesis by (simp add: POST_appt_track_always store_preserved_refl)
next
  case (Analytics m req)
  then show ?thesis by (simp add: GET_appt_analytics_always store_preserved_refl)
qed

lemma run_preserved: "store_preserved s (run ops s)"
proof (induction ops arbitrary: s)
  case Nil
  show ?case by (simp add: store_preserved_refl)
next
  case (Cons x ops)
  obtain env op where x: "x = (env, op)" by (cases x)
  have "store_preserved s (snd (step env op s))" by (rule step_preserved)
  moreover have "store_preserved (snd (step env op s)) (run ops (snd (step env op s)))"
    by (rule Cons.IH)
  ultimately show ?case using x by (auto intro: store_preserved_trans)
qed


lemma analytics_handler_same: "snd (analytics_handler env req s) = s"
  unfolding analytics_handler_def by (simp split: option.splits sum.splits)

lemma track_handler_bookings: "bookings (snd (track_handler env req s)) = bookings s"
  unfolding track_handler_def
  by (auto simp: Let_def split: option.splits sum.splits dest: bookingAnalytics_create_bookings)


subsection \<open>The constraints of the schema are kept\<close>

lemma map_key_same:
  assumes "\<And>r. k (g r) = k r"
  shows "map k (map g xs) = map k xs"
  using assms by (induction xs) auto

lemma update_rows_wf:
  assumes keys: "\<And>r r'. data r = Inr r' \<Longrightarrow>
        uuid r' = uuid r \<and> bookingId r' = bookingId r \<and> magicLinkId r' = magicLinkId r"
    and upd: "update_rows wh data s = Inr (b, s')"
    and wf: "wf_store s"
  shows "wf_store s'"
proof -
  let ?g = "\<lambda>r. if wh r then apply_data data r else r"
  have k: "uuid (?g r) = uuid r \<and> bookingId (?g r) = bookingId r \<and>
           magicLinkId (?g r) = magicLinkId r" for r
    using keys [of r] by (cases "data r") (auto simp: apply_data_def)
  have s': "bookings s' = map ?g (bookings s)"
    using upd by (auto simp: update_rows_def split: option.splits sum.splits)
  have "map uuid (bookings s') = map uuid (bookings s)"
    unfolding s' by (rule map_key_same) (simp add: k)
  moreover have "map bookingId (bookings s') = map bookingId (bookings s)"
    unfolding s' by (rule map_key_same) (simp add: k)
  moreover have "map magicLinkId (bookings s') = map magicLinkId (bookings s)"
    unfolding s' by (rule map_key_same) (simp add: k)
  ultimately show ?thesis using wf by (simp add: wf_store_def)
qed

lemma access_data_keys:
  "access_data t r = Inr r' \<Longrightarrow>
     uuid r' = uuid r \<and> bookingId r' = bookingId r \<and> magicLinkId r' = magicLinkId r"
  by (auto simp: access_data_def split: if_splits)

lemma confirm_data_keys:
  "confirm_data t r = Inr r' \<Longrightarrow>
     uuid r' = uuid r \<and> bookingId r' = bookingId r \<and> magicLinkId r' = magicLinkId r"
  by (auto simp: confirm_data_def)

lemma payment_data_keys:
  "payment_data env v r = Inr r' \<Longrightarrow>
     uuid r' = uuid r \<and> bookingId r' = bookingId r \<and> magicLinkId r' = magicLinkId r"
  by (auto simp: payment_data_def andThen_eq_Inr)

lemma redirect_update_wf:
  "booking_update_magicLinkId m (access_data t) s = Inr (b, s') \<Longrightarrow> wf_store s \<Longrightarrow> wf_store s'"
  using update_rows_wf [of "access_data t" _ s b s', OF access_data_keys]
  by (auto simp: booking_update_magicLinkId_def andThen_eq_Inr)

lemma magic_update_wf:
  "booking_update_key k (access_data t) s = Inr (b, s') \<Longrightarrow> wf_store s \<Longrightarrow> wf_store s'"
  using update_rows_wf [of "access_data t" _ s b s', OF access_data_keys]
  by (auto simp: booking_update_key_def)

lemma confirm_update_wf:
  "booking_update_id env u (confirm_data t) s = Inr (b, s') \<Longrightarrow> wf_store s \<Longrightarrow> wf_store s'"
  using update_rows_wf [of "confirm_data t" _ s b s', OF confirm_data_keys]
  by (auto simp: booking_update_id_def andThen_eq_Inr)

lemma payment_update_wf:
  "booking_update_id env u (payment_data env' v) s = Inr (b, s') \<Longrightarrow> wf_store s \<Longrightarrow>
     wf_store s'"
  using update_rows_wf [of "payment_data env' v" _ s b s', OF payment_data_keys]
  by (auto simp: booking_update_id_def andThen_eq_Inr)

lemma bookingAnalytics_create_wf:
  "bookingAnalytics_create env owner ev ua ipa s = Inr s' \<Longrightarrow> wf_store s \<Longrightarrow> wf_store s'"
  by (drule bookingAnalytics_create_bookings) (simp add: wf_store_def)

lemma booking_create_wf:
  assumes "booking_create b s = Inr (row, s')" and "wf_store s"
  shows "wf_store s'"
proof -
  have fresh: "\<not> list_ex (\<lambda>r. uuid r = uuid row \<or> bookingId r = bookingId row \<or>
                       magicLinkId r = magicLinkId row) (bookings s)"
    using assms(1) by (auto simp: booking_create_def andThen_eq_Inr Let_def split: if_splits)
  have s': "bookings s' = bookings s @ [row]"
    using booking_create_appends [OF assms(1)] by simp
  have "uuid row \<notin> uuid ` set (bookings s)"
    and "bookingId row \<notin> bookingId ` set (bookings s)"
    and "magicLinkId row \<notin> magicLinkId ` set (bookings s)"
    using fresh unfolding list_ex_iff image_iff by metis+
  then show ?thesis using assms(2) by (simp add: wf_store_def s')
qed

lemma redirect_handler_wf: "wf_store s \<Longrightarrow> wf_store (snd (redirect_handler env req s))"
  unfolding redirect_handler_def
  by (auto simp: Let_def split: option.splits sum.splits
           dest: redirect_update_wf bookingAnalytics_create_wf)

lemma magic_handler_wf: "wf_store s \<Longrightarrow> wf_store (snd (magic_handler env req s))"
  unfolding magic_handler_def
  by (auto split: option.splits sum.splits dest: magic_update_wf)

lemma confirm_handler_wf: "wf_store s \<Longrightarrow> wf_store (snd (confirm_handler env req s))"
  unfolding confirm_handler_def
  by (auto split: option.splits sum.splits dest: confirm_update_wf)

lemma payment_handler_wf: "wf_store s \<Longrightarrow> wf_store (snd (payment_handler env req s))"
  unfolding payment_handler_def
  by (auto split: option.splits sum.splits dest: payment_update_wf)

lemma create_handler_wf: "wf_store s \<Longrightarrow> wf_store (snd (create_handler env r s))"
  unfolding create_handler_def
  by (auto simp: Let_def split: sum.splits dest: booking_create_wf)

lemma step_wf: "wf_store s \<Longrightarrow> wf_store (snd (step env op s))"
proof (cases op)
  case (Payment u req)
  assume "wf_store s"
  then show ?thesis using Payment
    by (simp add: PUT_booking_payment_def guarded_def payment_handler_wf split: option.splits)
qed (simp_all add: POST_booking_create_def create_handler_wf POST_booking_confirm_def
       confirm_handler_wf GET_booking_def getById_handler_same GET_booking_magic_def
       magic_handler_wf GET_appt_def redirect_handler_wf GET_appt_preview_always
       POST_appt_track_always GET_appt_analytics_always)

lemma run_wf: "wf_store s \<Longrightarrow> wf_store (run ops s)"
proof (induction ops arbitrary: s)
  case Nil
  then show ?case by simp
next
  case (Cons x ops)
  obtain env op where x: "x = (env, op)" by (cases x)
  show ?case using Cons x by (simp add: step_wf)
qed

subsection \<open>Counting accesses\<close>







subsection \<open>Confirm\<close>

lemma apply_confirm: "apply_data (confirm_data t) r = r\<lparr>status := CONFIRMED, confirmedAt := Some t\<rparr>"
  by (simp add: apply_data_def confirm_data_def)

lemma found_by_id:
  assumes "readsUuid env u = Some v" and "booking_findUnique_id env u s = Inr r"
  shows "find (\<lambda>x. uuid x = v) (bookings s) = r"
  using assms by (auto simp: findUnique_id_Inr)

lemma confirm_known:
  assumes v: "readsUuid env u = Some v"
    and found: "booking_findUnique_id env u s = Inr (Some b)"
    and u: "u \<noteq> []"
  shows "POST_booking_confirm env u req s =
     (confirm_response (b\<lparr>status := CONFIRMED, confirmedAt := Some (dateNow env)\<rparr>),
      s\<lparr>bookings := map (\<lambda>r. if uuid r = v
                              then r\<lparr>status := CONFIRMED, confirmedAt := Some (dateNow env)\<rparr>
                              else r) (bookings s)\<rparr>)"
proof -
  note f = found_by_id [OF v found]
  have upd: "booking_update_id env u (confirm_data (dateNow env)) s =
     Inr (b\<lparr>status := CONFIRMED, confirmedAt := Some (dateNow env)\<rparr>,
          s\<lparr>bookings := map (\<lambda>r. if uuid r = v
                              then r\<lparr>status := CONFIRMED, confirmedAt := Some (dateNow env)\<rparr>
                              else r) (bookings s)\<rparr>)"
    using f v
    by (simp add: booking_update_id_def store_uuid_def andThen_def update_rows_def
          confirm_data_def apply_confirm)
  show ?thesis
    unfolding POST_booking_confirm_def confirm_handler_def
    using u by (simp add: param_bind upd)
qed

lemma confirm_known_after:
  assumes v: "readsUuid env u = Some v"
    and found: "booking_findUnique_id env u s = Inr (Some b)"
    and u: "u \<noteq> []"
  shows "booking_findUnique_id env u (snd (POST_booking_confirm env u req s)) =
           Inr (Some (b\<lparr>status := CONFIRMED, confirmedAt := Some (dateNow env)\<rparr>))"
proof -
  note f = found_by_id [OF v found]
  note fa = find_after_update [of "\<lambda>r. uuid r = v" "bookings s" b
      "confirm_data (dateNow env)" "\<lambda>r. uuid r = v", unfolded apply_confirm]
  have "find (\<lambda>r. uuid r = v)
          (map (\<lambda>r. if uuid r = v
                     then r\<lparr>status := CONFIRMED, confirmedAt := Some (dateNow env)\<rparr> else r)
             (bookings s)) = Some (b\<lparr>status := CONFIRMED, confirmedAt := Some (dateNow env)\<rparr>)"
    using f find_Some_holds [OF f] by (intro fa) simp_all
  then show ?thesis
    using v by (simp add: confirm_known [OF v found u] findUnique_id_Inr)
qed

lemma confirm_unknown:
  assumes "booking_findUnique_id env u s = Inr None" and "u \<noteq> []"
  shows "POST_booking_confirm env u req s = (bookingNotFound_uuid, s)"
proof -
  obtain v where v: "readsUuid env u = Some v"
    and n: "find (\<lambda>x. uuid x = v) (bookings s) = None"
    using assms(1) by (auto simp: findUnique_id_Inr)
  have "booking_update_id env u (confirm_data (dateNow env)) s = Inl RecordNotFound"
    using v n by (simp add: booking_update_id_def store_uuid_def andThen_def update_rows_def)
  then show ?thesis
    unfolding POST_booking_confirm_def confirm_handler_def
    using assms(2) by (simp add: param_bind)
qed

lemma confirm_refused:
  assumes "readsUuid env u = None" and "u \<noteq> []"
  shows "POST_booking_confirm env u req s =
     (internalError ''An unexpected error occurred while confirming the booking.'', s)"
proof -
  have "booking_update_id env u (confirm_data (dateNow env)) s = Inl InconsistentColumnData"
    using assms(1) by (simp add: booking_update_id_def store_uuid_def andThen_def)
  then show ?thesis
    unfolding POST_booking_confirm_def confirm_handler_def
    using assms(2) by (simp add: param_bind)
qed

subsection \<open>Analytics listing\<close>

lemma include_analytics_length: "length (include_analytics b s) \<le> 50"
  by (simp add: include_analytics_def)

lemma include_analytics_owner:
  "e \<in> set (include_analytics b s) \<Longrightarrow> e \<in> set (analytics s) \<and> ownerId e = uuid b"
  unfolding include_analytics_def
  by (auto dest: in_set_takeD)

lemma include_analytics_sorted:
  "sorted (map (\<lambda>e. - timestamp e) (include_analytics b s))"
  unfolding include_analytics_def
  by (simp add: take_map [symmetric] sorted_wrt_take)

lemma include_analytics_most_recent:
  assumes e: "e \<in> set (analytics s)" and own: "ownerId e = uuid b"
    and out: "e \<notin> set (include_analytics b s)"
    and e': "e' \<in> set (include_analytics b s)"
  shows "timestamp e \<le> timestamp e'"
proof -
  let ?xs = "sort_key (\<lambda>e. - timestamp e) (filter (\<lambda>e. ownerId e = uuid b) (analytics s))"
  have srt: "sorted (map (\<lambda>e. - timestamp e) (take 50 ?xs @ drop 50 ?xs))" by simp
  have "e \<in> set ?xs" using e own by simp
  then have "e \<in> set (take 50 ?xs) \<or> e \<in> set (drop 50 ?xs)"
    by (metis Un_iff append_take_drop_id set_append)
  then have d: "e \<in> set (drop 50 ?xs)" using out by (simp add: include_analytics_def)
  have t: "e' \<in> set (take 50 ?xs)" using e' by (simp add: include_analytics_def)
  from srt have "\<forall>x\<in>set (take 50 ?xs). \<forall>y\<in>set (drop 50 ?xs). - timestamp x \<le> - timestamp y"
    unfolding map_append sorted_append by auto
  then show ?thesis using d t by auto
qed

lemma analytics_handler_known:
  assumes found: "booking_findUnique_magicLinkId m s = Inr (Some b)" and m: "m \<noteq> []"
  shows "analytics_handler env (bind ''magicLinkId'' m req) s =
     (Json 200 (success (analytics_data b (include_analytics b s))), s)"
  unfolding analytics_handler_def using assms by (simp add: param_bind)

subsection \<open>Track\<close>

lemma track_handler_known:
  assumes found: "booking_findUnique_magicLinkId m s = Inr (Some b)" and m: "m \<noteq> []"
    and ok: "\<not> analyticsInsertFails env"
    and ev: "getField (body req) ''event'' = JUndefined"
    and ua: "getField (body req) ''userAgent'' = JUndefined"
    and ipa: "getField (body req) ''ipAddress'' = JUndefined"
    and row: "click_row env req b = Some row"
  shows "track_handler env (bind ''magicLinkId'' m req) s =
     (eventTracked, s\<lparr>analytics := analytics s @ [row\<lparr>eventType := ''interaction''\<rparr>]\<rparr>)"
proof -
  have h: "js_or JUndefined v = v" for v by (simp add: js_or_def)
  have hd: "headerUserAgent (bind ''magicLinkId'' m req) = headerUserAgent req"
    "ip (bind ''magicLinkId'' m req) = ip req" by (simp_all add: bind_def)
  have c: "bookingAnalytics_create env (uuid b) (JStr ''interaction'')
       (js_or (opt_string (headerUserAgent req)) JNull)
       (js_or (opt_string (ip req)) JNull) s =
     Inr (s\<lparr>analytics := analytics s @ [row\<lparr>eventType := ''interaction''\<rparr>]\<rparr>)"
    using ok row
    by (auto simp: bookingAnalytics_create_def header_or_null click_row_def andThen_def
          store_varchar_interaction split: sum.splits)
  show ?thesis
    unfolding track_handler_def
    using found m
    by (simp add: param_bind body_bind ev ua ipa h hd c Let_def)
qed

subsection \<open>Payment validator\<close>

lemma amount_error_iff:
  "''amount must be a positive number'' \<in> set (paymentStatusUpdate_errors b) \<longleftrightarrow>
     getField b ''amount'' \<noteq> JUndefined \<and>
     (\<not> is_number (getField b ''amount'') \<or> amount_negative (getField b ''amount''))"
  by (simp add: paymentStatusUpdate_errors_def Let_def)

lemma PaymentStatus_of_string_Some:
  "PaymentStatus_of_string x = Some p \<longleftrightarrow> x = PaymentStatus_string p"
  by (cases p) (auto simp: PaymentStatus_of_string_def validPaymentStatuses_def split: if_splits)

lemma zero_amount_errors:
  assumes ps: "getField b ''paymentStatus'' = JStr (PaymentStatus_string p)"
    and p: "p \<noteq> P_COMPLETED"
    and am: "getField b ''amount'' = JNum 0"
    and cur: "getField b ''currency'' = JStr c"
    and c: "currencyPattern c"
  shows "paymentStatusUpdate_errors b =
     (if truthy (getField b ''paymentId'') \<and> \<not> is_string (getField b ''paymentId'')
      then [''paymentId must be a string''] else [])"
proof -
  have ne: "PaymentStatus_string p \<noteq> []" by (cases p) simp_all
  have nc: "PaymentStatus_string p \<noteq> ''COMPLETED''" using p by (cases p) simp_all
  have inc: "includes_PaymentStatus (JStr (PaymentStatus_string p))"
    by (auto simp: includes_PaymentStatus_def PaymentStatus_of_string_Some)
  have cne: "c \<noteq> []" using c by (auto simp: currencyPattern_def)
  show ?thesis
    by (simp add: paymentStatusUpdate_errors_def Let_def ps am cur ne nc inc cne c
          amount_negative_def)
qed


subsection \<open>Evaluations\<close>

lemma sample_token_text: "\<not> has_zero_byte ''V1StGXR8_Z5j''"
  by (simp add: has_zero_byte_def)

lemma sample_lookup:
  "booking_findUnique_magicLinkId ''V1StGXR8_Z5j'' sample_store = Inr (Some sample_booking)"
  by (simp add: findUnique_magicLinkId_Inr sample_token_text sample_store_def
        sample_booking_def)

lemma sample_expiry: "magicLinkExpiresAt sample_booking = Some 3601000"
  by (simp add: sample_booking_def)



lemma sample_reads_id:
  "readsUuid (sample_env t) ''3b241101-e2bb-4255-8caf-4136c566a962'' =
     Some ''3b241101-e2bb-4255-8caf-4136c566a962''"
  by (simp add: sample_env_def sample_readsUuid_def lower_hex_def)

lemma sample_reads_id_capitals:
  "readsUuid (sample_env t) ''3B241101-E2BB-4255-8CAF-4136C566A962'' =
     Some ''3b241101-e2bb-4255-8caf-4136c566a962''"
  by (simp add: sample_env_def sample_readsUuid_def lower_hex_def)

lemma sample_reads_unknown_id:
  "readsUuid (sample_env t) ''00000000-0000-4000-8000-000000000000'' =
     Some ''00000000-0000-4000-8000-000000000000''"
  by (simp add: sample_env_def sample_readsUuid_def lower_hex_def)

lemma sample_reads_no_uuid: "readsUuid (sample_env t) ''not-a-uuid'' = None"
  by (simp add: sample_env_def sample_readsUuid_def lower_hex_def)

lemma sample_reads_address: "readsInet (sample_env t) ''127.0.0.1'' = Some ''127.0.0.1''"
  by (simp add: sample_env_def sample_readsInet_def is_byte_number_def Let_def)

lemma sample_click_row:
  "click_row (sample_env t) (sample_request v) sample_booking =
     Some (sample_event ''magic_link_click'' t)"
  by (simp add: click_row_def sample_request_def or_null_def store_optional_def
        store_text_def store_inet_def has_zero_byte_def andThen_def sample_reads_address
        sample_event_def sample_booking_def)
     (simp add: sample_env_def)

lemma sample_lookup_uuid:
  "booking_findUnique_id (sample_env t) ''3b241101-e2bb-4255-8caf-4136c566a962'' sample_store =
     Inr (Some sample_booking)"
  by (simp add: findUnique_id_Inr sample_reads_id sample_store_def sample_booking_def)

lemma sample_run_eval:
  "run sample_run sample_store =
    \<lparr>bookings =
      [sample_booking\<lparr>status := CONFIRMED, paymentStatus := P_COMPLETED,
          paymentId := Some ''pay_123'', paymentAmount := Some 20,
          paymentCurrency := Some ''USD'', confirmedAt := Some 3000,
          paymentUpdatedAt := Some 4000, lastAccessedAt := Some 5000, accessCount := 2\<rparr>,
       \<lparr>uuid = ''0d9f4a1c-5b7e-4c2a-9e3f-6a8b7c5d4e3f'',
        bookingId = ''booking_3800000_a1b2c3d4e'',
        magicLinkId = ''Zx8_q-Lm02Rt'',
        userName = ''Jane Smith'',
        userPhone = ''+1987654321'',
        appointmentType = TUTORIAL,
        appointmentDate = 90000000,
        bookingDetails = JObj [],
        status = PENDING_CONFIRMATION,
        paymentStatus = P_PENDING,
        paymentId = None,
        paymentAmount = None,
        paymentCurrency = None,
        createdAt = 3800000,
        confirmedAt = None,
        paymentUpdatedAt = None,
        lastAccessedAt = None,
        magicLinkExpiresAt = Some 7400000,
        accessCount = 0\<rparr>],
     analytics =
      [\<lparr>analyticsId = ''7c9e6679-7425-40de-944b-e07fc1f90ae7'',
        ownerId = ''3b241101-e2bb-4255-8caf-4136c566a962'',
        eventType = ''magic_link_click'', userAgent = Some ''curl/8.0'',
        ipAddress = Some ''127.0.0.1'', timestamp = 2000\<rparr>]\<rparr>"
  by (simp add: sample_run_def sample_store_def sample_booking_def sample_env_def
        sample_request_def sample_readsUuid_def lower_hex_def sample_readsInet_def
        is_byte_number_def store_decimal_10_2_def round_half_away_def
        GET_appt_def redirect_handler_def GET_booking_magic_def magic_handler_def
        POST_booking_confirm_def confirm_handler_def PUT_booking_payment_def
        payment_handler_def guarded_def validatePaymentStatusUpdate_def
        paymentStatusUpdate_errors_def includes_PaymentStatus_def PaymentStatus_of_string_def
        validPaymentStatuses_def amount_negative_def currencyPattern_def
        POST_booking_create_def create_handler_def booking_create_def
        booking_findUnique_magicLinkId_def booking_update_magicLinkId_def
        booking_update_id_def booking_update_key_def update_rows_def
        store_text_def store_varchar_def store_uuid_def store_inet_def store_optional_def
        store_json_def has_zero_byte_def utf8_length_def andThen_def
        apply_data_def access_data_def
        confirm_data_def payment_data_def prisma_decimal_field_def bookingAnalytics_create_def
        bind_def param_def js_or_def opt_string_def Let_def
        calculateMagicLinkExpiration_def number_to_string_def nat_to_string.simps
        digit_char_def redirectUrl_def frontendBase_def)

text \<open>A creation that succeeds stores the new booking last, unaccessed, expiring in one hour.\<close>

lemma create_handler_created:
  assumes "status_code (fst (create_handler env r s)) = 201"
  shows "\<exists>b. bookings (snd (create_handler env r s)) = bookings s @ [b] \<and>
             magicLinkExpiresAt b = Some (dateNow env + 3600000) \<and>
             accessCount b = 0 \<and> status b = PENDING_CONFIRMATION \<and>
             paymentStatus b = P_PENDING"
  using assms
  by (auto simp: create_handler_def booking_create_def Let_def internalError_def
        andThen_def calculateMagicLinkExpiration_def split: if_splits sum.splits)

text \<open>
  Values that the store refuses: an amount beyond the precision of \<open>DECIMAL(10,2)\<close>, an
  address that is no \<open>INET\<close> value, an event of more than 100 characters, and an id that
  is no UUID. Each request is answered 500 and the store stays as it is.
\<close>

lemma store_decimal_rounds: "store_decimal_10_2 (1005 / 1000) = Inr (101 / 100)"
  by (simp add: store_decimal_10_2_def round_half_away_def)

lemma store_decimal_overflow:
  "prisma_decimal_field env (JNum 100000000) cur = Inl NumericOverflow"
  by (simp add: prisma_decimal_field_def store_decimal_10_2_def round_half_away_def
        andThen_def)

lemma payment_beyond_precision:
  "PUT_booking_payment (sample_env 4000) ''3b241101-e2bb-4255-8caf-4136c566a962''
     (sample_request (JObj [(''paymentStatus'', JStr ''PENDING''),
                            (''amount'', JNum 100000000), (''currency'', JStr ''USD'')]))
     sample_store =
   (internalError ''An unexpected error occurred while updating payment status.'',
    sample_store)"
  by (simp add: PUT_booking_payment_def guarded_def validatePaymentStatusUpdate_def
        paymentStatusUpdate_errors_def includes_PaymentStatus_def PaymentStatus_of_string_def
        validPaymentStatuses_def amount_negative_def currencyPattern_def
        payment_handler_def bind_def param_def sample_request_def Let_def
        booking_update_id_def store_uuid_def sample_reads_id andThen_def update_rows_def
        sample_store_def sample_booking_def payment_data_def prisma_decimal_field_def
        store_decimal_10_2_def round_half_away_def
        store_varchar_def has_zero_byte_def utf8_length_def)

lemma track_refused_address:
  "track_handler (sample_env 2000)
     (bind ''magicLinkId'' ''V1StGXR8_Z5j''
        (sample_request (JObj [(''ipAddress'', JStr ''not-an-address'')]))) sample_store =
   (internalError ''An unexpected error occurred while tracking the event.'', sample_store)"
  by (simp add: track_handler_def Let_def param_bind sample_lookup
        bookingAnalytics_create_def js_or_def opt_string_def andThen_def
        store_varchar_def store_optional_def store_text_def store_inet_def
        has_zero_byte_def utf8_length_def sample_env_def sample_request_def bind_def param_def
        sample_readsInet_def is_byte_number_def)

lemma utf8_length_letters: "utf8_length (replicate n (CHR ''x'')) = n"
  by (induction n) (simp_all add: utf8_length_def)

lemma track_event_too_long:
  "track_handler (sample_env 2000)
     (bind ''magicLinkId'' ''V1StGXR8_Z5j''
        (sample_request (JObj [(''event'', JStr (replicate 101 (CHR ''x'')))]))) sample_store =
   (internalError ''An unexpected error occurred while tracking the event.'', sample_store)"
  by (simp add: track_handler_def Let_def param_bind sample_lookup
        bookingAnalytics_create_def js_or_def opt_string_def andThen_def
        store_varchar_def has_zero_byte_def utf8_length_letters
        sample_env_def sample_request_def bind_def param_def)

lemma GET_booking_no_uuid:
  "GET_booking (sample_env 2000) ''not-a-uuid'' (sample_request (JObj [])) sample_store =
   (internalError ''An unexpected error occurred while retrieving the booking.'',
    sample_store)"
  by (simp add: GET_booking_def getById_handler_def param_bind booking_findUnique_id_def
        store_uuid_def sample_reads_no_uuid andThen_def)

section \<open>The claims of the specification\<close>

text \<open>
  Claim C1. A token whose booking expired one second ago must yield the Expired result on
  the API path and on the preview path. Evaluated at the sample booking (expiration at
  3601000) one second later: the API path answers 410; the preview handler, which has no
  expiry check, answers 200 with the preview; and the preview route as registered answers
  400, since \<open>validateNanoId\<close> reads the parameter \<open>nanoid\<close>, which the path
  \<open>/:magicLinkId/preview\<close> does not bind.
\<close>

theorem preview_of_expired_link:
  "isMagicLinkExpired (magicLinkExpiresAt sample_booking) (dateNow (sample_env 3602000)) \<and>
   GET_booking_magic (sample_env 3602000) ''V1StGXR8_Z5j'' (sample_request (JObj []))
       sample_store = (magicLinkExpired, sample_store) \<and>
   preview_handler (sample_env 3602000)
       (bind ''magicLinkId'' ''V1StGXR8_Z5j'' (sample_request (JObj []))) sample_store =
     (Json 200 (success (preview_data (sample_env 3602000)
        (bind ''magicLinkId'' ''V1StGXR8_Z5j'' (sample_request (JObj [])))
        ''V1StGXR8_Z5j'' sample_booking)), sample_store) \<and>
   GET_appt_preview (sample_env 3602000) ''V1StGXR8_Z5j'' (sample_request (JObj []))
       sample_store = (invalidMagicLinkId, sample_store) \<and>
   status_code invalidMagicLinkId = 400 \<and> status_code magicLinkExpired = 410"
proof -
  have e: "isMagicLinkExpired (magicLinkExpiresAt sample_booking) (dateNow (sample_env 3602000))"
    by (simp add: sample_expiry isMagicLinkExpired_def sample_env_def)
  have tok: "''V1StGXR8_Z5j'' \<noteq> []" by simp
  show ?thesis
    using e GET_booking_magic_expired [OF sample_lookup tok e]
      preview_handler_known [OF sample_lookup tok]
    by (simp add: GET_appt_preview_always invalidMagicLinkId_def magicLinkExpired_def)
qed




text \<open>
  Claim C3, as stated, fails: on the preview path a token that resolves to no booking is
  not answered with the not-found exit when it is not a well-formed magic link ID. The
  token \<open>abc\<close>, unknown to the sample store, is answered 400 by the middleware of the
  route.
\<close>

theorem preview_of_malformed_unknown_token:
  "bookings sample_store = [sample_booking] \<and>
   magicLinkId sample_booking \<noteq> ''abc'' \<and>
   \<not> nanoidPattern ''abc'' \<and>
   GET_appt_preview (sample_env 2000) ''abc'' (sample_request (JObj [])) sample_store =
     (invalidMagicLinkId, sample_store) \<and>
   invalidMagicLinkId \<noteq> bookingNotFound_magic \<and>
   status_code invalidMagicLinkId = 400 \<and>
   status_code bookingNotFound_magic = 404"
  by (simp add: GET_appt_preview_always sample_store_def sample_booking_def nanoidPattern_def
        invalidMagicLinkId_def bookingNotFound_magic_def)

text \<open>
  Claim C3, amended. For a token that resolves to no booking, every resolver path
  (redirect, preview, magic API, track) leaves the store as it is: no access count is
  incremented, no \<open>lastAccessedAt\<close> is touched and no analytics row is inserted. For a
  token that is not empty and that the store accepts as a text (it holds no character of
  code zero), the redirect path and the magic API path end with the not-found exit, and so
  do the handlers of preview and track when they are reached. For a token that the store
  refuses to look for, these paths end with the internal error instead (the redirect to
  \<open>reason=server_error\<close>, 500). A token that is not a well-formed magic link ID is
  answered 400 by the preview and track routes.
\<close>

theorem unknown_token_leaves_store:
  assumes "\<And>b. booking_findUnique_magicLinkId m s \<noteq> Inr (Some b)"
  shows "snd (GET_appt env m req s) = s \<and>
     snd (GET_appt_preview env m req s) = s \<and>
     snd (GET_booking_magic env m req s) = s \<and>
     snd (POST_appt_track env m req s) = s \<and>
     snd (preview_handler env (bind ''magicLinkId'' m req) s) = s \<and>
     snd (track_handler env (bind ''magicLinkId'' m req) s) = s \<and>
     (m \<noteq> [] \<and> \<not> has_zero_byte m \<longrightarrow>
        GET_appt env m req s = (Redirect 302 (errorUrl env ''not_found''), s) \<and>
        GET_booking_magic env m req s = (bookingNotFound_magic, s) \<and>
        preview_handler env (bind ''magicLinkId'' m req) s = (bookingNotFound_magic, s) \<and>
        track_handler env (bind ''magicLinkId'' m req) s = (bookingNotFound_magic, s)) \<and>
     (m \<noteq> [] \<and> has_zero_byte m \<longrightarrow>
        GET_appt env m req s = (Redirect 302 (errorUrl env ''server_error''), s) \<and>
        GET_booking_magic env m req s =
          (internalError ''An unexpected error occurred while retrieving the booking.'', s) \<and>
        preview_handler env (bind ''magicLinkId'' m req) s =
          (internalError ''An unexpected error occurred while previewing the magic link.'',
           s) \<and>
        track_handler env (bind ''magicLinkId'' m req) s =
          (internalError ''An unexpected error occurred while tracking the event.'', s)) \<and>
     (\<not> nanoidPattern m \<longrightarrow>
        fst (GET_appt_preview env m req s) = invalidMagicLinkId \<and>
        fst (POST_appt_track env m req s) = invalidMagicLinkId)"
proof -
  have unchanged: "snd (GET_appt env m req s) = s"
    "snd (GET_booking_magic env m req s) = s"
    using GET_appt_unresolved [of m s env req] GET_booking_magic_unresolved [of m s env req]
      assms by blast+
  have handlers: "snd (preview_handler env (bind ''magicLinkId'' m req) s) = s"
    "snd (track_handler env (bind ''magicLinkId'' m req) s) = s"
    using assms
    by (auto simp: preview_handler_def track_handler_def Let_def param_bind
          split: option.splits sum.splits)
  have accepted: "m \<noteq> [] \<and> \<not> has_zero_byte m \<longrightarrow>
        GET_appt env m req s = (Redirect 302 (errorUrl env ''not_found''), s) \<and>
        GET_booking_magic env m req s = (bookingNotFound_magic, s) \<and>
        preview_handler env (bind ''magicLinkId'' m req) s = (bookingNotFound_magic, s) \<and>
        track_handler env (bind ''magicLinkId'' m req) s = (bookingNotFound_magic, s)"
  proof
    assume a: "m \<noteq> [] \<and> \<not> has_zero_byte m"
    have n: "booking_findUnique_magicLinkId m s = Inr None"
      using a assms [of "the (find (\<lambda>x. magicLinkId x = m) (bookings s))"]
      by (cases "find (\<lambda>x. magicLinkId x = m) (bookings s)")
         (simp_all add: findUnique_magicLinkId_Inr)
    show "GET_appt env m req s = (Redirect 302 (errorUrl env ''not_found''), s) \<and>
        GET_booking_magic env m req s = (bookingNotFound_magic, s) \<and>
        preview_handler env (bind ''magicLinkId'' m req) s = (bookingNotFound_magic, s) \<and>
        track_handler env (bind ''magicLinkId'' m req) s = (bookingNotFound_magic, s)"
      using a GET_appt_unknown [OF n] GET_booking_magic_unknown [OF n]
        preview_handler_unknown [OF n] track_handler_unknown [OF n] by simp
  qed
  have refused: "m \<noteq> [] \<and> has_zero_byte m \<longrightarrow>
        GET_appt env m req s = (Redirect 302 (errorUrl env ''server_error''), s) \<and>
        GET_booking_magic env m req s =
          (internalError ''An unexpected error occurred while retrieving the booking.'', s) \<and>
        preview_handler env (bind ''magicLinkId'' m req) s =
          (internalError ''An unexpected error occurred while previewing the magic link.'',
           s) \<and>
        track_handler env (bind ''magicLinkId'' m req) s =
          (internalError ''An unexpected error occurred while tracking the event.'', s)"
  proof
    assume a: "m \<noteq> [] \<and> has_zero_byte m"
    then obtain e where n: "booking_findUnique_magicLinkId m s = Inl e"
      using findUnique_magicLinkId_Inl [of m s] by blast
    show "GET_appt env m req s = (Redirect 302 (errorUrl env ''server_error''), s) \<and>
        GET_booking_magic env m req s =
          (internalError ''An unexpected error occurred while retrieving the booking.'', s) \<and>
        preview_handler env (bind ''magicLinkId'' m req) s =
          (internalError ''An unexpected error occurred while previewing the magic link.'',
           s) \<and>
        track_handler env (bind ''magicLinkId'' m req) s =
          (internalError ''An unexpected error occurred while tracking the event.'', s)"
      using a GET_appt_refused [OF n] GET_booking_magic_refused [OF n]
        preview_handler_refused [OF n] track_handler_refused [OF n] by simp
  qed
  from unchanged handlers accepted refused show ?thesis
    by (simp add: GET_appt_preview_always POST_appt_track_always)
qed

theorem unknown_token_leaves_store_witness:
  "booking_findUnique_magicLinkId ''Qw3rTy_u10P-'' sample_store = Inr None \<and>
   nanoidPattern ''Qw3rTy_u10P-'' \<and>
   GET_appt (sample_env 2000) ''Qw3rTy_u10P-'' (sample_request (JObj [])) sample_store =
     (Redirect 302 ''https://usetextbook.com/booking/error?reason=not_found'', sample_store) \<and>
   GET_booking_magic (sample_env 2000) ''Qw3rTy_u10P-'' (sample_request (JObj [])) sample_store =
     (bookingNotFound_magic, sample_store) \<and>
   snd (GET_appt_preview (sample_env 2000) ''Qw3rTy_u10P-'' (sample_request (JObj []))
          sample_store) = sample_store \<and>
   snd (POST_appt_track (sample_env 2000) ''Qw3rTy_u10P-'' (sample_request (JObj []))
          sample_store) = sample_store \<and>
   has_zero_byte [CHR ''a'', CHR 0x00, CHR ''b''] \<and>
   GET_appt (sample_env 2000) [CHR ''a'', CHR 0x00, CHR ''b''] (sample_request (JObj []))
       sample_store =
     (Redirect 302 ''https://usetextbook.com/booking/error?reason=server_error'',
      sample_store) \<and>
   GET_booking_magic (sample_env 2000) [CHR ''a'', CHR 0x00, CHR ''b'']
       (sample_request (JObj [])) sample_store =
     (internalError ''An unexpected error occurred while retrieving the booking.'',
      sample_store) \<and>
   \<not> nanoidPattern ''abc'' \<and>
   fst (GET_appt_preview (sample_env 2000) ''abc'' (sample_request (JObj [])) sample_store) =
     invalidMagicLinkId"
proof -
  have u1: "booking_findUnique_magicLinkId ''Qw3rTy_u10P-'' sample_store = Inr None"
    by (simp add: findUnique_magicLinkId_Inr has_zero_byte_def sample_store_def
          sample_booking_def)
  have z: "has_zero_byte [CHR ''a'', CHR 0x00, CHR ''b'']" by (simp add: has_zero_byte_def)
  have u2: "booking_findUnique_magicLinkId [CHR ''a'', CHR 0x00, CHR ''b''] sample_store \<noteq>
      Inr (Some b)" for b
    using z by (simp add: findUnique_magicLinkId_Inr)
  have u3: "booking_findUnique_magicLinkId ''abc'' sample_store \<noteq> Inr (Some b)" for b
    by (simp add: findUnique_magicLinkId_Inr sample_store_def sample_booking_def)
  have p1: "nanoidPattern ''Qw3rTy_u10P-''" by (simp add: nanoidPattern_def)
  have n1: "\<not> has_zero_byte ''Qw3rTy_u10P-''" by (simp add: has_zero_byte_def)
  have p2: "\<not> nanoidPattern ''abc''" by (simp add: nanoidPattern_def)
  have url: "errorUrl (sample_env 2000) ''not_found'' =
      ''https://usetextbook.com/booking/error?reason=not_found''"
    "errorUrl (sample_env 2000) ''server_error'' =
      ''https://usetextbook.com/booking/error?reason=server_error''"
    by (simp_all add: errorUrl_def frontendBase_def sample_env_def)
  have k1: "booking_findUnique_magicLinkId ''Qw3rTy_u10P-'' sample_store \<noteq> Inr (Some b)" for b
    by (simp add: u1)
  show ?thesis
    using unknown_token_leaves_store [of "''Qw3rTy_u10P-''" sample_store "sample_env 2000"
        "sample_request (JObj [])", OF k1]
      unknown_token_leaves_store [of "[CHR ''a'', CHR 0x00, CHR ''b'']" sample_store
        "sample_env 2000" "sample_request (JObj [])", OF u2]
      unknown_token_leaves_store [of "''abc''" sample_store "sample_env 2000"
        "sample_request (JObj [])", OF u3]
    by (simp add: u1 z p1 n1 p2 url)
qed

text \<open>
  Claim C5. No operation of the core lowers the access count of a stored booking or changes
  its expiration date: after any run of requests (creation, confirmation, payment update,
  reads, accesses on every path, tracking) each booking stored before is still at its place,
  with its key, with the expiration date it had, and with an access count that is not
  smaller.
\<close>

theorem stored_bookings_preserved:
  "length (bookings s) \<le> length (bookings (run ops s)) \<and>
   (\<forall>i < length (bookings s).
      uuid (bookings (run ops s) ! i) = uuid (bookings s ! i) \<and>
      accessCount (bookings s ! i) \<le> accessCount (bookings (run ops s) ! i) \<and>
      magicLinkExpiresAt (bookings (run ops s) ! i) = magicLinkExpiresAt (bookings s ! i))"
  using run_preserved [of s ops]
  by (simp add: store_preserved_nth booking_preserved_def)

theorem stored_bookings_preserved_witness:
  "length (bookings sample_store) = 1 \<and>
   length (bookings (run sample_run sample_store)) = 2 \<and>
   uuid (bookings (run sample_run sample_store) ! 0) = uuid (bookings sample_store ! 0) \<and>
   accessCount (bookings sample_store ! 0) = 0 \<and>
   accessCount (bookings (run sample_run sample_store) ! 0) = 2 \<and>
   magicLinkExpiresAt (bookings sample_store ! 0) = Some 3601000 \<and>
   magicLinkExpiresAt (bookings (run sample_run sample_store) ! 0) = Some 3601000"
  using stored_bookings_preserved [of sample_store sample_run]
  by (simp add: sample_run_eval) (simp add: sample_store_def sample_booking_def)

text \<open>
  Claim C6, as stated, fails: an id that no booking has is not always answered with
  NotFound. The id of a booking is a UUID; for the text \<open>not-a-uuid\<close> the update throws
  an error that is not \<open>Record to update not found\<close>, and the \<open>catch\<close> answers 500.
\<close>

theorem confirm_of_text_that_is_no_uuid:
  "bookings sample_store = [sample_booking] \<and>
   uuid sample_booking \<noteq> ''not-a-uuid'' \<and>
   readsUuid (sample_env 2000) ''not-a-uuid'' = None \<and>
   POST_booking_confirm (sample_env 2000) ''not-a-uuid'' (sample_request (JObj []))
       sample_store =
     (internalError ''An unexpected error occurred while confirming the booking.'',
      sample_store) \<and>
   status_code (internalError ''An unexpected error occurred while confirming the booking.'')
     = 500 \<and>
   status_code bookingNotFound_uuid = 404"
proof -
  have n: "''not-a-uuid'' \<noteq> []" by simp
  show ?thesis
    using confirm_refused [OF sample_reads_no_uuid n, of 2000 "sample_request (JObj [])"
        sample_store]
    by (simp add: sample_reads_no_uuid internalError_def bookingNotFound_uuid_def
          sample_store_def sample_booking_def)
qed

text \<open>
  Claim C6, amended. Confirming a booking that exists sets its status to \<open>CONFIRMED\<close>
  and its \<open>confirmedAt\<close> to the time of the request, whatever its status was, and answers
  200; so a second confirmation succeeds again and moves \<open>confirmedAt\<close> to the new time.
  Confirming an id that is a UUID and that no booking has answers 404 and changes nothing.
  An id that the store does not read as a UUID is answered 500, and nothing changes.
\<close>

theorem confirm_spec:
  assumes "u \<noteq> []"
  shows "(readsUuid env u = Some v \<and> booking_findUnique_id env u s = Inr (Some b) \<longrightarrow>
      uuid b = v \<and>
      POST_booking_confirm env u req s =
        (confirm_response (b\<lparr>status := CONFIRMED, confirmedAt := Some (dateNow env)\<rparr>),
         s\<lparr>bookings := map (\<lambda>r. if uuid r = v
                                 then r\<lparr>status := CONFIRMED, confirmedAt := Some (dateNow env)\<rparr>
                                 else r) (bookings s)\<rparr>) \<and>
      booking_findUnique_id env u (snd (POST_booking_confirm env u req s)) =
        Inr (Some (b\<lparr>status := CONFIRMED, confirmedAt := Some (dateNow env)\<rparr>)) \<and>
      status_code (fst (POST_booking_confirm env u req s)) = 200) \<and>
     (readsUuid env u = Some v \<and> booking_findUnique_id env u s = Inr None \<longrightarrow>
      (\<forall>r \<in> set (bookings s). uuid r \<noteq> v) \<and>
      POST_booking_confirm env u req s = (bookingNotFound_uuid, s) \<and>
      status_code (fst (POST_booking_confirm env u req s)) = 404) \<and>
     (readsUuid env u = None \<longrightarrow>
      POST_booking_confirm env u req s =
        (internalError ''An unexpected error occurred while confirming the booking.'', s) \<and>
      status_code (fst (POST_booking_confirm env u req s)) = 500)"
proof -
  have known: "readsUuid env u = Some v \<and> booking_findUnique_id env u s = Inr (Some b) \<longrightarrow>
      uuid b = v \<and>
      POST_booking_confirm env u req s =
        (confirm_response (b\<lparr>status := CONFIRMED, confirmedAt := Some (dateNow env)\<rparr>),
         s\<lparr>bookings := map (\<lambda>r. if uuid r = v
                                 then r\<lparr>status := CONFIRMED, confirmedAt := Some (dateNow env)\<rparr>
                                 else r) (bookings s)\<rparr>) \<and>
      booking_findUnique_id env u (snd (POST_booking_confirm env u req s)) =
        Inr (Some (b\<lparr>status := CONFIRMED, confirmedAt := Some (dateNow env)\<rparr>)) \<and>
      status_code (fst (POST_booking_confirm env u req s)) = 200"
  proof
    assume a: "readsUuid env u = Some v \<and> booking_findUnique_id env u s = Inr (Some b)"
    then have v: "readsUuid env u = Some v"
      and f: "booking_findUnique_id env u s = Inr (Some b)" by simp_all
    have k: "uuid b = v" using find_Some_holds [OF found_by_id [OF v f]] .
    show "uuid b = v \<and>
      POST_booking_confirm env u req s =
        (confirm_response (b\<lparr>status := CONFIRMED, confirmedAt := Some (dateNow env)\<rparr>),
         s\<lparr>bookings := map (\<lambda>r. if uuid r = v
                                 then r\<lparr>status := CONFIRMED, confirmedAt := Some (dateNow env)\<rparr>
                                 else r) (bookings s)\<rparr>) \<and>
      booking_findUnique_id env u (snd (POST_booking_confirm env u req s)) =
        Inr (Some (b\<lparr>status := CONFIRMED, confirmedAt := Some (dateNow env)\<rparr>)) \<and>
      status_code (fst (POST_booking_confirm env u req s)) = 200"
      using k confirm_known [OF v f assms, of req] confirm_known_after [OF v f assms, of req]
      by (simp add: confirm_response_def)
  qed
  have unknown: "readsUuid env u = Some v \<and> booking_findUnique_id env u s = Inr None \<longrightarrow>
      (\<forall>r \<in> set (bookings s). uuid r \<noteq> v) \<and>
      POST_booking_confirm env u req s = (bookingNotFound_uuid, s) \<and>
      status_code (fst (POST_booking_confirm env u req s)) = 404"
  proof
    assume a: "readsUuid env u = Some v \<and> booking_findUnique_id env u s = Inr None"
    then have v: "readsUuid env u = Some v"
      and f: "booking_findUnique_id env u s = Inr None" by simp_all
    have "find (\<lambda>x. uuid x = v) (bookings s) = None" by (rule found_by_id [OF v f])
    then have none: "\<forall>r \<in> set (bookings s). uuid r \<noteq> v" by (simp add: find_None_iff)
    show "(\<forall>r \<in> set (bookings s). uuid r \<noteq> v) \<and>
      POST_booking_confirm env u req s = (bookingNotFound_uuid, s) \<and>
      status_code (fst (POST_booking_confirm env u req s)) = 404"
      using none confirm_unknown [OF f assms, of req]
      by (simp add: bookingNotFound_uuid_def)
  qed
  have refused: "readsUuid env u = None \<longrightarrow>
      POST_booking_confirm env u req s =
        (internalError ''An unexpected error occurred while confirming the booking.'', s) \<and>
      status_code (fst (POST_booking_confirm env u req s)) = 500"
    using confirm_refused [OF _ assms, of env req s] by (simp add: internalError_def)
  from known unknown refused show ?thesis by blast
qed

theorem confirm_spec_witness:
  "booking_findUnique_id (sample_env 2000) ''3b241101-e2bb-4255-8caf-4136c566a962''
     sample_store = Inr (Some sample_booking) \<and>
   status sample_booking = PENDING_CONFIRMATION \<and>
   status_code (fst (POST_booking_confirm (sample_env 2000)
       ''3b241101-e2bb-4255-8caf-4136c566a962'' (sample_request (JObj [])) sample_store)) = 200 \<and>
   booking_findUnique_id (sample_env 2000) ''3b241101-e2bb-4255-8caf-4136c566a962''
     (snd (POST_booking_confirm (sample_env 2000)
       ''3b241101-e2bb-4255-8caf-4136c566a962'' (sample_request (JObj [])) sample_store)) =
     Inr (Some (sample_booking\<lparr>status := CONFIRMED, confirmedAt := Some 2000\<rparr>)) \<and>
   status_code (fst (POST_booking_confirm (sample_env 5000)
       ''3b241101-e2bb-4255-8caf-4136c566a962'' (sample_request (JObj []))
       (snd (POST_booking_confirm (sample_env 2000)
          ''3b241101-e2bb-4255-8caf-4136c566a962'' (sample_request (JObj [])) sample_store)))) = 200 \<and>
   booking_findUnique_id (sample_env 5000) ''3b241101-e2bb-4255-8caf-4136c566a962''
     (snd (POST_booking_confirm (sample_env 5000)
       ''3b241101-e2bb-4255-8caf-4136c566a962'' (sample_request (JObj []))
       (snd (POST_booking_confirm (sample_env 2000)
          ''3b241101-e2bb-4255-8caf-4136c566a962'' (sample_request (JObj [])) sample_store)))) =
     Inr (Some (sample_booking\<lparr>status := CONFIRMED, confirmedAt := Some 5000\<rparr>)) \<and>
   status_code (fst (POST_booking_confirm (sample_env 2000)
       ''3B241101-E2BB-4255-8CAF-4136C566A962'' (sample_request (JObj [])) sample_store)) = 200 \<and>
   booking_findUnique_id (sample_env 2000) ''00000000-0000-4000-8000-000000000000''
     sample_store = Inr None \<and>
   POST_booking_confirm (sample_env 2000) ''00000000-0000-4000-8000-000000000000''
       (sample_request (JObj [])) sample_store = (bookingNotFound_uuid, sample_store) \<and>
   readsUuid (sample_env 2000) ''not-a-uuid'' = None \<and>
   status_code (fst (POST_booking_confirm (sample_env 2000) ''not-a-uuid''
       (sample_request (JObj [])) sample_store)) = 500"
proof -
  let ?u = "''3b241101-e2bb-4255-8caf-4136c566a962''"
  let ?U = "''3B241101-E2BB-4255-8CAF-4136C566A962''"
  let ?z = "''00000000-0000-4000-8000-000000000000''"
  let ?r = "sample_request (JObj [])"
  let ?s1 = "snd (POST_booking_confirm (sample_env 2000) ?u ?r sample_store)"
  let ?b1 = "sample_booking\<lparr>status := CONFIRMED, confirmedAt := Some 2000\<rparr>"
  have u: "?u \<noteq> []" and U: "?U \<noteq> []" and z: "?z \<noteq> []" and n: "''not-a-uuid'' \<noteq> []"
    by simp_all
  have t: "dateNow (sample_env 2000) = 2000" "dateNow (sample_env 5000) = 5000"
    by (simp_all add: sample_env_def)
  have lz: "booking_findUnique_id (sample_env 2000) ?z sample_store = Inr None"
    by (simp add: findUnique_id_Inr sample_reads_unknown_id sample_store_def
          sample_booking_def)
  have lU: "booking_findUnique_id (sample_env 2000) ?U sample_store = Inr (Some sample_booking)"
    by (simp add: findUnique_id_Inr sample_reads_id_capitals sample_store_def
          sample_booking_def)
  note first = confirm_spec [OF u, of "sample_env 2000" ?u sample_store sample_booking ?r,
      unfolded t]
  have c1: "status_code (fst (POST_booking_confirm (sample_env 2000) ?u ?r sample_store)) = 200"
    and f1: "booking_findUnique_id (sample_env 2000) ?u ?s1 = Inr (Some ?b1)"
    using first sample_reads_id [of 2000] sample_lookup_uuid [of 2000] by blast+
  have f1': "booking_findUnique_id (sample_env 5000) ?u ?s1 = Inr (Some ?b1)"
    using f1 by (simp add: booking_findUnique_id_def store_uuid_def sample_env_def)
  note second = confirm_spec [OF u, of "sample_env 5000" ?u ?s1 ?b1 ?r, unfolded t]
  have c2: "status_code (fst (POST_booking_confirm (sample_env 5000) ?u ?r ?s1)) = 200"
    and f2: "booking_findUnique_id (sample_env 5000) ?u
               (snd (POST_booking_confirm (sample_env 5000) ?u ?r ?s1)) =
             Inr (Some (?b1\<lparr>status := CONFIRMED, confirmedAt := Some 5000\<rparr>))"
    using second sample_reads_id [of 5000] f1' by blast+
  note capitals = confirm_spec [OF U, of "sample_env 2000" ?u sample_store sample_booking ?r]
  have c3: "status_code (fst (POST_booking_confirm (sample_env 2000) ?U ?r sample_store)) = 200"
    using capitals sample_reads_id_capitals [of 2000] lU by blast
  note unknown = confirm_spec [OF z, of "sample_env 2000" ?z sample_store sample_booking ?r]
  have nf: "POST_booking_confirm (sample_env 2000) ?z ?r sample_store =
      (bookingNotFound_uuid, sample_store)"
    using unknown sample_reads_unknown_id [of 2000] lz by blast
  note refused = confirm_spec [OF n, of "sample_env 2000" ?u sample_store sample_booking ?r]
  have c4: "status_code (fst (POST_booking_confirm (sample_env 2000) ''not-a-uuid'' ?r
      sample_store)) = 500"
    using refused sample_reads_no_uuid [of 2000] by blast
  have st: "status sample_booking = PENDING_CONFIRMATION" by (simp add: sample_booking_def)
  show ?thesis
    using sample_lookup_uuid [of 2000] st c1 f1 c2 f2 c3 lz nf sample_reads_no_uuid [of 2000] c4
    by simp
qed

text \<open>
  Claim C8. The analytics listing of a booking must return its events, most recent first
  and at most 50. Evaluated at a stored booking with three events: the handler, when it is
  reached, lists them by descending timestamp; the route as registered answers 400 and
  lists nothing, since \<open>validateNanoId\<close> reads the parameter \<open>nanoid\<close>, which the
  path \<open>/:magicLinkId/analytics\<close> does not bind.
\<close>

theorem analytics_of_known_token:
  "GET_appt_analytics (sample_env 6000) ''V1StGXR8_Z5j'' (sample_request (JObj []))
       sample_tracked_store = (invalidMagicLinkId, sample_tracked_store) \<and>
   status_code invalidMagicLinkId = 400 \<and>
   analytics_handler (sample_env 6000)
       (bind ''magicLinkId'' ''V1StGXR8_Z5j'' (sample_request (JObj []))) sample_tracked_store =
     (Json 200 (success (analytics_data sample_booking
        [sample_event ''interaction'' 5000, sample_event ''booking_view'' 3000,
         sample_event ''magic_link_click'' 2000])), sample_tracked_store)"
proof -
  have f: "booking_findUnique_magicLinkId ''V1StGXR8_Z5j'' sample_tracked_store =
      Inr (Some sample_booking)"
    by (simp add: findUnique_magicLinkId_Inr sample_token_text sample_tracked_store_def
          sample_booking_def)
  have tok: "''V1StGXR8_Z5j'' \<noteq> []" by simp
  have l: "include_analytics sample_booking sample_tracked_store =
        [sample_event ''interaction'' 5000, sample_event ''booking_view'' 3000,
         sample_event ''magic_link_click'' 2000]"
    by (simp add: include_analytics_def sample_tracked_store_def sample_event_def
          sample_booking_def)
  show ?thesis
    using analytics_handler_known [OF f tok, of "sample_env 6000" "sample_request (JObj [])"]
    by (simp add: GET_appt_analytics_always l invalidMagicLinkId_def)
qed

text \<open>
  Claim C9. Tracking on a known token must insert exactly one analytics row, with the event
  type \<open>interaction\<close> when no event is supplied, and leave the booking as it is.
  Evaluated at the sample booking with an empty body: the handler, when it is reached,
  appends that one row and keeps the bookings; the route as registered answers 400 and
  inserts nothing, since \<open>validateNanoId\<close> reads the parameter \<open>nanoid\<close>, which the
  path \<open>/:magicLinkId/track\<close> does not bind.
\<close>

theorem track_of_known_token:
  "POST_appt_track (sample_env 2000) ''V1StGXR8_Z5j'' (sample_request (JObj [])) sample_store =
     (invalidMagicLinkId, sample_store) \<and>
   status_code invalidMagicLinkId = 400 \<and>
   analytics sample_store = [] \<and>
   track_handler (sample_env 2000)
       (bind ''magicLinkId'' ''V1StGXR8_Z5j'' (sample_request (JObj []))) sample_store =
     (eventTracked,
      \<lparr>bookings = [sample_booking], analytics = [sample_event ''interaction'' 2000]\<rparr>)"
proof -
  have tok: "''V1StGXR8_Z5j'' \<noteq> []" by simp
  have ok: "\<not> analyticsInsertFails (sample_env 2000)" by (simp add: sample_env_def)
  have b: "getField (body (sample_request (JObj []))) ''event'' = JUndefined"
    "getField (body (sample_request (JObj []))) ''userAgent'' = JUndefined"
    "getField (body (sample_request (JObj []))) ''ipAddress'' = JUndefined"
    by (simp_all add: sample_request_def)
  have row: "(sample_event ''magic_link_click'' 2000)\<lparr>eventType := ''interaction''\<rparr> =
      sample_event ''interaction'' 2000"
    by (simp add: sample_event_def)
  show ?thesis
    using track_handler_known [OF sample_lookup tok ok b sample_click_row]
    by (simp add: POST_appt_track_always row invalidMagicLinkId_def)
       (simp add: sample_store_def)
qed

text \<open>
  Claim C10. The payment validator reports the amount exactly when an amount is given that
  is not a number or is below zero. A request with a payment status other than
  \<open>COMPLETED\<close>, the amount 0 and a currency of three capital letters gets no error for
  its amount, its status or its currency: the only error left is the one for a
  \<open>paymentId\<close> that is not a string, and without it the validator calls \<open>next()\<close>.
\<close>

theorem zero_amount_passes:
  assumes "getField (body req) ''paymentStatus'' = JStr (PaymentStatus_string p)"
    and "p \<noteq> P_COMPLETED"
    and "getField (body req) ''amount'' = JNum 0"
    and "getField (body req) ''currency'' = JStr c"
    and "currencyPattern c"
  shows "(''amount must be a positive number'' \<in> set (paymentStatusUpdate_errors v) \<longleftrightarrow>
        (case getField v ''amount'' of
           JUndefined \<Rightarrow> False
         | JNum x \<Rightarrow> x < 0
         | _ \<Rightarrow> True)) \<and>
     paymentStatusUpdate_errors (body req) =
       (if truthy (getField (body req) ''paymentId'') \<and>
           \<not> is_string (getField (body req) ''paymentId'')
        then [''paymentId must be a string''] else []) \<and>
     (\<not> truthy (getField (body req) ''paymentId'') \<or>
      is_string (getField (body req) ''paymentId'') \<longrightarrow>
        validatePaymentStatusUpdate req = None)"
proof -
  have a: "(''amount must be a positive number'' \<in> set (paymentStatusUpdate_errors v) \<longleftrightarrow>
        (case getField v ''amount'' of
           JUndefined \<Rightarrow> False
         | JNum x \<Rightarrow> x < 0
         | _ \<Rightarrow> True))"
    unfolding amount_error_iff
    by (cases "getField v ''amount''") (simp_all add: amount_negative_def)
  note e = zero_amount_errors [OF assms]
  show ?thesis
    using a e by (simp add: validatePaymentStatusUpdate_def Let_def)
qed

theorem zero_amount_passes_witness:
  "validatePaymentStatusUpdate
     (sample_request (JObj [(''paymentStatus'', JStr ''PENDING''), (''amount'', JNum 0),
                            (''currency'', JStr ''USD'')])) = None \<and>
   ''amount must be a positive number'' \<in> set (paymentStatusUpdate_errors
      (JObj [(''paymentStatus'', JStr ''PENDING''), (''amount'', JNum (- 1)),
             (''currency'', JStr ''USD'')])) \<and>
   ''amount must be a positive number'' \<notin> set (paymentStatusUpdate_errors
      (JObj [(''paymentStatus'', JStr ''PENDING''), (''amount'', JNum 0),
             (''currency'', JStr ''USD'')]))"
proof -
  let ?b = "JObj [(''paymentStatus'', JStr ''PENDING''), (''amount'', JNum 0),
                  (''currency'', JStr ''USD'')]"
  have h: "getField (body (sample_request ?b)) ''paymentStatus'' =
        JStr (PaymentStatus_string P_PENDING)"
    "P_PENDING \<noteq> P_COMPLETED"
    "getField (body (sample_request ?b)) ''amount'' = JNum 0"
    "getField (body (sample_request ?b)) ''currency'' = JStr ''USD''"
    "currencyPattern ''USD''"
    by (simp_all add: sample_request_def currencyPattern_def)
  have pid: "getField (body (sample_request ?b)) ''paymentId'' = JUndefined"
    by (simp add: sample_request_def)
  show ?thesis
    using zero_amount_passes [OF h, of "JObj [(''paymentStatus'', JStr ''PENDING''),
        (''amount'', JNum (- 1)), (''currency'', JStr ''USD'')]"]
      zero_amount_passes [OF h, of ?b]
    by (simp add: pid)
qed

end
